theory Spec2Isabelle
  imports Complex_Main "HOL-Library.List_Lexorder" "HOL-Library.Char_ord"
begin

section \<open>The booking core of the mock API (src/mocks/handlers.ts)\<close>

text \<open>
  The handlers keep four module-level arrays (providers, services, bookings, reviews) and
  mutate them in place. The embedding passes them around as one record. Strings are
  compared the way JavaScript compares them: lexicographically, character by character
  (the list order of \<open>List_Lexorder\<close> over the character codes of \<open>Char_ord\<close>).
\<close>

subsection \<open>Numbers as text: \<open>toString\<close>, \<open>padStart\<close>, \<open>split\<close>, \<open>Number\<close>\<close>

definition digit_char :: "nat \<Rightarrow> char" where
  "digit_char d = char_of (48 + d)"

definition is_digit :: "char \<Rightarrow> bool" where
  "is_digit c = (CHR ''0'' \<le> c \<and> c \<le> CHR ''9'')"

definition digit_val :: "char \<Rightarrow> nat" where
  "digit_val c = of_char c - 48"

text \<open>\<open>Number.prototype.toString\<close> on a non-negative integer: its decimal digits.\<close>

fun toString :: "nat \<Rightarrow> string" where
  "toString n = (if n < 10 then [digit_char n] else toString (n div 10) @ [digit_char (n mod 10)])"

declare toString.simps [simp del]

text \<open>\<open>s.padStart(2, '0')\<close>: zeros are put in front only while the text is shorter than 2.\<close>

definition padStart2 :: "string \<Rightarrow> string" where
  "padStart2 s = replicate (2 - length s) CHR ''0'' @ s"

text \<open>\<open>s.split(':')\<close>: the pieces between colons; the empty text gives one empty piece.\<close>

fun split_colon :: "string \<Rightarrow> string list" where
  "split_colon [] = [[]]"
| "split_colon (c # cs) =
     (if c = CHR '':'' then [] # split_colon cs
      else (case split_colon cs of
              [] \<Rightarrow> [[c]]
            | p # ps \<Rightarrow> (c # p) # ps))"

text \<open>
  \<open>Number(s)\<close> on a piece of a time of day. A run of decimal digits is its value and the
  empty text is 0, as in JavaScript; every other text is \<open>None\<close>, which stands for
  \<open>NaN\<close> (signs, blanks, fractions and exponents are not represented).
\<close>

definition Number :: "string \<Rightarrow> nat option" where
  "Number s = (if list_all is_digit s
               then Some (foldl (\<lambda>a c. 10 * a + digit_val c) 0 s) else None)"

text \<open>
  \<open>const [h, m] = t.split(':').map(Number)\<close>: the first two pieces, both numbers;
  \<open>None\<close> when a piece is missing (\<open>undefined\<close>) or is \<open>NaN\<close>.
\<close>

definition parse_time :: "string \<Rightarrow> (nat \<times> nat) option" where
  "parse_time t =
     (case map Number (split_colon t) of
        Some h # Some m # _ \<Rightarrow> Some (h, m)
      | _ \<Rightarrow> None)"

text \<open>The template \<open>`${h.toString().padStart(2,'0')}:${m.toString().padStart(2,'0')}`\<close>.\<close>

definition fmt_time :: "nat \<Rightarrow> nat \<Rightarrow> string" where
  "fmt_time h m = padStart2 (toString h) @ CHR '':'' # padStart2 (toString m)"

subsection \<open>Data model\<close>

datatype status = Pending | Confirmed | Cancelled | Completed

text \<open>\<open>{ start: string; end: string }\<close>, used for working periods and for offered slots.\<close>

record slot =
  slot_start :: string
  slot_end :: string

record working_day =
  isOpen :: bool
  slots :: "slot list"

text \<open>
  Of a provider only the fields the booking core reads or writes are kept; the working
  hours are keyed by the day of the week as text, \<open>''0''\<close> (Sunday) to \<open>''6''\<close>.
\<close>

record provider =
  p_id :: string
  workingHours :: "(string \<times> working_day) list"
  p_rating :: rat
  reviewCount :: nat

record service =
  s_id :: string
  s_providerId :: string
  price :: rat
  s_currency :: string
  duration :: nat
  available :: bool

record booking =
  b_id :: string
  b_customerId :: string
  b_providerId :: string
  b_serviceId :: string
  b_date :: string
  startTime :: string
  endTime :: string
  b_status :: status
  totalPrice :: rat
  b_currency :: string
  b_notes :: "string option"
  b_createdAt :: string
  b_updatedAt :: string

record review =
  r_id :: string
  r_bookingId :: string
  r_customerId :: string
  r_providerId :: string
  r_serviceId :: string
  r_rating :: int
  comment :: string
  r_createdAt :: string
  r_updatedAt :: string

record state =
  mockProviders :: "provider list"
  mockServices :: "service list"
  mockBookings :: "booking list"
  mockReviews :: "review list"

subsection \<open>Slot generation\<close>

text \<open>
  The \<open>while\<close> loop of \<open>generateAvailableSlots\<close> for one working period. The source
  pushes onto a shared array; the model returns the slots pushed, in the same order.
  Hours and minutes are non-negative whole numbers; a period whose start or end does
  not read as two such numbers is not represented, and \<open>period_slots\<close> gives no
  slots for it.
\<close>

function slot_loop :: "nat \<Rightarrow> nat \<Rightarrow> nat \<Rightarrow> nat \<Rightarrow> slot list" where
  "slot_loop currentHour currentMinute endHour endMinute =
     (if currentHour < endHour \<or> (currentHour = endHour \<and> currentMinute < endMinute) then
        (let startTime = fmt_time currentHour currentMinute;
             m1 = currentMinute + 30;
             h2 = (if m1 \<ge> 60 then currentHour + 1 else currentHour);
             m2 = (if m1 \<ge> 60 then m1 - 60 else m1)
         in (if h2 < endHour \<or> (h2 = endHour \<and> m2 \<le> endMinute)
             then [\<lparr>slot_start = startTime, slot_end = fmt_time h2 m2\<rparr>] else [])
            @ slot_loop h2 m2 endHour endMinute)
      else [])"
  by pat_completeness auto
termination
  by (relation "measures [\<lambda>(ch, cm, eh, em). eh + 1 - ch, \<lambda>(ch, cm, eh, em). max 60 em - cm]")
     auto

declare slot_loop.simps [simp del]

definition period_slots :: "slot \<Rightarrow> slot list" where
  "period_slots period =
     (case (parse_time (slot_start period), parse_time (slot_end period)) of
        (Some (startHour, startMinute), Some (endHour, endMinute)) \<Rightarrow>
          slot_loop startHour startMinute endHour endMinute
      | _ \<Rightarrow> [])"

subsection \<open>Availability\<close>

text \<open>
  The day of the week of a date text comes from the libraries:
  \<open>parseISO(date).getDay().toString()\<close> of date-fns and \<open>Date\<close>. It is the key under
  which the working hours of the day are looked up: \<open>''0''\<close> (Sunday) to \<open>''6''\<close>, or
  \<open>''NaN''\<close> for a text that \<open>parseISO\<close> does not read as a date. The library is not
  modelled: this function from date texts to keys is the parameter \<open>dayOfWeek\<close> of
  every function that uses it, and every theorem holds for every such function.
\<close>

type_synonym weekday_key = "string \<Rightarrow> string"

text \<open>The three-clause test of the filter at the end of \<open>generateAvailableSlots\<close>.\<close>

definition conflicts :: "booking \<Rightarrow> slot \<Rightarrow> bool" where
  "conflicts booking slot =
     (startTime booking \<le> slot_start slot \<and> endTime booking > slot_start slot \<or>
      startTime booking < slot_end slot \<and> endTime booking \<ge> slot_end slot \<or>
      startTime booking \<ge> slot_start slot \<and> endTime booking \<le> slot_end slot)"

definition bookedSlots :: "state \<Rightarrow> string \<Rightarrow> string \<Rightarrow> booking list" where
  "bookedSlots st providerId date =
     filter (\<lambda>booking. b_providerId booking = providerId \<and>
                        b_date booking = date \<and>
                        (b_status booking = Confirmed \<or> b_status booking = Pending))
            (mockBookings st)"

definition generateAvailableSlots :: "weekday_key \<Rightarrow> state \<Rightarrow> string \<Rightarrow> string \<Rightarrow> slot list" where
  "generateAvailableSlots dayOfWeek st providerId date =
     (case find (\<lambda>p. p_id p = providerId) (mockProviders st) of
        None \<Rightarrow> []
      | Some provider \<Rightarrow>
          (case map_of (workingHours provider) (dayOfWeek date) of
             None \<Rightarrow> []
           | Some wh \<Rightarrow>
               if \<not> isOpen wh then []
               else filter (\<lambda>slot. \<not> list_ex (\<lambda>booking. conflicts booking slot)
                                             (bookedSlots st providerId date))
                           (concat (map period_slots (slots wh)))))"

subsection \<open>Requests, errors and handlers\<close>

text \<open>
  The responses of the handlers that are not 2xx:
  400 \<open>Missing required ... information\<close> / \<open>Provider ID and date are required\<close>,
  404 \<open>... not found\<close>, 400 \<open>Selected time slot is not available\<close>,
  400 \<open>Can only review completed bookings\<close>, 400 \<open>Review already exists for this booking\<close>.
\<close>

datatype error = ValidationError | NotFound | SlotUnavailable | BookingNotCompleted | DuplicateReview

text \<open>
  A field of a JSON body or a query parameter is a text or is absent; \<open>!x\<close> holds of an
  absent and of an empty text.
\<close>

definition truthy :: "string option \<Rightarrow> bool" where
  "truthy x = (case x of None \<Rightarrow> False | Some s \<Rightarrow> s \<noteq> [])"

fun findIndex :: "('a \<Rightarrow> bool) \<Rightarrow> 'a list \<Rightarrow> nat option" where
  "findIndex P [] = None"
| "findIndex P (x # xs) = (if P x then Some 0 else map_option Suc (findIndex P xs))"

record booking_data =
  d_customerId :: "string option"
  d_providerId :: "string option"
  d_serviceId :: "string option"
  d_date :: "string option"
  d_startTime :: "string option"
  d_notes :: "string option"

text \<open>
  The end of a booking: \<open>setHours(hours, minutes, 0)\<close> on today's date, plus
  \<open>duration * 60000\<close> milliseconds, read back with \<open>getHours()\<close> and \<open>getMinutes()\<close>.
  The clock wraps at midnight; a change of the local clock between the two instants
  (daylight saving) is not represented. An unreadable start time gives an invalid date.
\<close>

definition end_time :: "string \<Rightarrow> nat \<Rightarrow> string" where
  "end_time start dur =
     (case parse_time start of
        None \<Rightarrow> ''NaN:NaN''
      | Some (hours, minutes) \<Rightarrow>
          (let t = (60 * hours + minutes + dur) mod 1440
           in fmt_time (t div 60) (t mod 60)))"

text \<open>\<open>POST /api/bookings\<close>; \<open>now\<close> is \<open>new Date().toISOString()\<close>.\<close>

definition post_booking ::
  "weekday_key \<Rightarrow> string \<Rightarrow> booking_data \<Rightarrow> state \<Rightarrow> (error + booking) \<times> state" where
  "post_booking dayOfWeek now data st =
     (if \<not> truthy (d_customerId data) \<or> \<not> truthy (d_providerId data) \<or>
         \<not> truthy (d_serviceId data) \<or> \<not> truthy (d_date data) \<or>
         \<not> truthy (d_startTime data)
      then (Inl ValidationError, st)
      else
        (case find (\<lambda>s. s_id s = the (d_serviceId data)) (mockServices st) of
           None \<Rightarrow> (Inl NotFound, st)
         | Some service \<Rightarrow>
             (let endT = end_time (the (d_startTime data)) (duration service);
                  availableSlots =
                    generateAvailableSlots dayOfWeek st (the (d_providerId data))
                      (the (d_date data));
                  isSlotAvailable =
                    list_ex (\<lambda>slot. slot_start slot = the (d_startTime data)) availableSlots
              in if \<not> isSlotAvailable then (Inl SlotUnavailable, st)
                 else
                   (let newBooking =
                          \<lparr>b_id = toString (length (mockBookings st) + 1),
                           b_customerId = the (d_customerId data),
                           b_providerId = the (d_providerId data),
                           b_serviceId = the (d_serviceId data),
                           b_date = the (d_date data),
                           startTime = the (d_startTime data),
                           endTime = endT,
                           b_status = Pending,
                           totalPrice = price service,
                           b_currency = s_currency service,
                           b_notes = (if truthy (d_notes data) then d_notes data else None),
                           b_createdAt = now,
                           b_updatedAt = now\<rparr>
                    in (Inr newBooking,
                        st\<lparr>mockBookings := mockBookings st @ [newBooking]\<rparr>)))))"

text \<open>
  \<open>PUT /api/bookings/:id\<close> spreads the body over the stored booking. The body is
  modelled by the fields of a booking it may carry, each present or absent.
\<close>

record booking_patch =
  u_id :: "string option"
  u_customerId :: "string option"
  u_providerId :: "string option"
  u_serviceId :: "string option"
  u_date :: "string option"
  u_startTime :: "string option"
  u_endTime :: "string option"
  u_status :: "status option"
  u_totalPrice :: "rat option"
  u_currency :: "string option"
  u_notes :: "string option"
  u_createdAt :: "string option"

definition spread :: "booking \<Rightarrow> booking_patch \<Rightarrow> string \<Rightarrow> booking" where
  "spread old data now =
     \<lparr>b_id = (case u_id data of None \<Rightarrow> b_id old | Some v \<Rightarrow> v),
      b_customerId = (case u_customerId data of None \<Rightarrow> b_customerId old | Some v \<Rightarrow> v),
      b_providerId = (case u_providerId data of None \<Rightarrow> b_providerId old | Some v \<Rightarrow> v),
      b_serviceId = (case u_serviceId data of None \<Rightarrow> b_serviceId old | Some v \<Rightarrow> v),
      b_date = (case u_date data of None \<Rightarrow> b_date old | Some v \<Rightarrow> v),
      startTime = (case u_startTime data of None \<Rightarrow> startTime old | Some v \<Rightarrow> v),
      endTime = (case u_endTime data of None \<Rightarrow> endTime old | Some v \<Rightarrow> v),
      b_status = (case u_status data of None \<Rightarrow> b_status old | Some v \<Rightarrow> v),
      totalPrice = (case u_totalPrice data of None \<Rightarrow> totalPrice old | Some v \<Rightarrow> v),
      b_currency = (case u_currency data of None \<Rightarrow> b_currency old | Some v \<Rightarrow> v),
      b_notes = (case u_notes data of None \<Rightarrow> b_notes old | Some v \<Rightarrow> Some v),
      b_createdAt = (case u_createdAt data of None \<Rightarrow> b_createdAt old | Some v \<Rightarrow> v),
      b_updatedAt = now\<rparr>"

definition put_booking ::
  "string \<Rightarrow> string \<Rightarrow> booking_patch \<Rightarrow> state \<Rightarrow> (error + booking) \<times> state" where
  "put_booking now bid data st =
     (case findIndex (\<lambda>b. b_id b = bid) (mockBookings st) of
        None \<Rightarrow> (Inl NotFound, st)
      | Some bookingIndex \<Rightarrow>
          (let updated = spread (mockBookings st ! bookingIndex) data now
           in (Inr updated, st\<lparr>mockBookings := (mockBookings st)[bookingIndex := updated]\<rparr>)))"

text \<open>\<open>DELETE /api/bookings/:id\<close>.\<close>

definition delete_booking :: "string \<Rightarrow> string \<Rightarrow> state \<Rightarrow> (error + unit) \<times> state" where
  "delete_booking now bid st =
     (case findIndex (\<lambda>b. b_id b = bid) (mockBookings st) of
        None \<Rightarrow> (Inl NotFound, st)
      | Some bookingIndex \<Rightarrow>
          (Inr (),
           st\<lparr>mockBookings := (mockBookings st)
                  [bookingIndex := (mockBookings st ! bookingIndex)
                                     \<lparr>b_status := Cancelled, b_updatedAt := now\<rparr>]\<rparr>))"

text \<open>\<open>GET /api/availability\<close>.\<close>

definition get_availability ::
  "weekday_key \<Rightarrow> string option \<Rightarrow> string option \<Rightarrow> state \<Rightarrow> (error + slot list) \<times> state"
  where
  "get_availability dayOfWeek providerId date st =
     (if \<not> truthy providerId \<or> \<not> truthy date then (Inl ValidationError, st)
      else (Inr (generateAvailableSlots dayOfWeek st (the providerId) (the date)), st))"

subsection \<open>Reviews and the provider's rating\<close>

record review_data =
  v_bookingId :: "string option"
  v_customerId :: "string option"
  v_providerId :: "string option"
  v_serviceId :: "string option"
  v_rating :: "int option"
  v_comment :: "string option"

record review_patch =
  w_rating :: "int option"
  w_comment :: "string option"

text \<open>
  \<open>reduce((sum, review) => sum + review.rating, 0)\<close> and the division by the number of
  reviews. Ratings are whole numbers; the quotient is taken exactly, where the source
  rounds it to a double.
\<close>

definition totalRating :: "review list \<Rightarrow> int" where
  "totalRating providerReviews = foldl (\<lambda>sum review. sum + r_rating review) 0 providerReviews"

definition mean_rating :: "review list \<Rightarrow> rat" where
  "mean_rating providerReviews =
     of_int (totalRating providerReviews) / of_nat (length providerReviews)"

definition providerReviews :: "review list \<Rightarrow> string \<Rightarrow> review list" where
  "providerReviews reviews providerId = filter (\<lambda>r. r_providerId r = providerId) reviews"

text \<open>\<open>POST /api/reviews\<close>.\<close>

definition post_review :: "string \<Rightarrow> review_data \<Rightarrow> state \<Rightarrow> (error + review) \<times> state" where
  "post_review now data st =
     (if \<not> truthy (v_bookingId data) \<or> \<not> truthy (v_customerId data) \<or>
         \<not> truthy (v_providerId data) \<or> \<not> truthy (v_serviceId data) \<or>
         v_rating data = None \<or> v_rating data = Some 0
      then (Inl ValidationError, st)
      else
        (case find (\<lambda>b. b_id b = the (v_bookingId data)) (mockBookings st) of
           None \<Rightarrow> (Inl NotFound, st)
         | Some booking \<Rightarrow>
             if b_status booking \<noteq> Completed then (Inl BookingNotCompleted, st)
             else
               (case find (\<lambda>r. r_bookingId r = the (v_bookingId data)) (mockReviews st) of
                  Some existingReview \<Rightarrow> (Inl DuplicateReview, st)
                | None \<Rightarrow>
                    (let newReview =
                           \<lparr>r_id = toString (length (mockReviews st) + 1),
                            r_bookingId = the (v_bookingId data),
                            r_customerId = the (v_customerId data),
                            r_providerId = the (v_providerId data),
                            r_serviceId = the (v_serviceId data),
                            r_rating = the (v_rating data),
                            comment = (if truthy (v_comment data) then the (v_comment data) else []),
                            r_createdAt = now,
                            r_updatedAt = now\<rparr>;
                         reviews = mockReviews st @ [newReview];
                         prs = providerReviews reviews (the (v_providerId data));
                         providers =
                           (case findIndex (\<lambda>p. p_id p = the (v_providerId data)) (mockProviders st) of
                              None \<Rightarrow> mockProviders st
                            | Some providerIndex \<Rightarrow>
                                (mockProviders st)
                                  [providerIndex := (mockProviders st ! providerIndex)
                                     \<lparr>p_rating := mean_rating prs, reviewCount := length prs\<rparr>])
                     in (Inr newReview,
                         st\<lparr>mockReviews := reviews, mockProviders := providers\<rparr>)))))"

text \<open>\<open>PUT /api/reviews/:id\<close>: the rating is recomputed, the count is not touched.\<close>

definition put_review ::
  "string \<Rightarrow> string \<Rightarrow> review_patch \<Rightarrow> state \<Rightarrow> (error + review) \<times> state" where
  "put_review now rid data st =
     (case findIndex (\<lambda>r. r_id r = rid) (mockReviews st) of
        None \<Rightarrow> (Inl NotFound, st)
      | Some reviewIndex \<Rightarrow>
          (let old = mockReviews st ! reviewIndex;
               updated = old
                 \<lparr>r_rating := (case w_rating data of
                                 None \<Rightarrow> r_rating old
                               | Some v \<Rightarrow> if v = 0 then r_rating old else v),
                  comment := (if truthy (w_comment data) then the (w_comment data)
                              else comment old),
                  r_updatedAt := now\<rparr>;
               reviews = (mockReviews st)[reviewIndex := updated];
               providerId = r_providerId updated;
               prs = providerReviews reviews providerId;
               providers =
                 (case findIndex (\<lambda>p. p_id p = providerId) (mockProviders st) of
                    None \<Rightarrow> mockProviders st
                  | Some providerIndex \<Rightarrow>
                      (mockProviders st)
                        [providerIndex := (mockProviders st ! providerIndex)
                           \<lparr>p_rating := mean_rating prs\<rparr>])
           in (Inr updated, st\<lparr>mockReviews := reviews, mockProviders := providers\<rparr>)))"

text \<open>\<open>DELETE /api/reviews/:id\<close>: \<open>splice(reviewIndex, 1)\<close> removes the review.\<close>

definition delete_review :: "string \<Rightarrow> state \<Rightarrow> (error + unit) \<times> state" where
  "delete_review rid st =
     (case findIndex (\<lambda>r. r_id r = rid) (mockReviews st) of
        None \<Rightarrow> (Inl NotFound, st)
      | Some reviewIndex \<Rightarrow>
          (let providerId = r_providerId (mockReviews st ! reviewIndex);
               reviews = take reviewIndex (mockReviews st) @ drop (Suc reviewIndex) (mockReviews st);
               prs = providerReviews reviews providerId;
               providers =
                 (case findIndex (\<lambda>p. p_id p = providerId) (mockProviders st) of
                    None \<Rightarrow> mockProviders st
                  | Some providerIndex \<Rightarrow>
                      (mockProviders st)
                        [providerIndex := (mockProviders st ! providerIndex)
                           \<lparr>p_rating := (if length prs > 0 then mean_rating prs
                                          else p_rating (mockProviders st ! providerIndex)),
                            reviewCount := length prs\<rparr>])
           in (Inr (), st\<lparr>mockReviews := reviews, mockProviders := providers\<rparr>)))"

subsection \<open>The initial data and the operations on it\<close>

definition open_day :: "string \<Rightarrow> string \<Rightarrow> working_day" where
  "open_day s e = \<lparr>isOpen = True, slots = [\<lparr>slot_start = s, slot_end = e\<rparr>]\<rparr>"

definition closed_day :: working_day where
  "closed_day = \<lparr>isOpen = False, slots = []\<rparr>"

definition initialProviders :: "provider list" where
  "initialProviders =
     [\<lparr>p_id = ''1'',
       workingHours =
         [(''0'', closed_day),
          (''1'', open_day ''09:00'' ''17:00''),
          (''2'', open_day ''09:00'' ''17:00''),
          (''3'', open_day ''09:00'' ''17:00''),
          (''4'', open_day ''09:00'' ''17:00''),
          (''5'', open_day ''09:00'' ''17:00''),
          (''6'', open_day ''10:00'' ''15:00'')],
       p_rating = 24 / 5, reviewCount = 124\<rparr>,
      \<lparr>p_id = ''2'',
       workingHours =
         [(''0'', open_day ''10:00'' ''20:00''),
          (''1'', open_day ''10:00'' ''20:00''),
          (''2'', open_day ''10:00'' ''20:00''),
          (''3'', open_day ''10:00'' ''20:00''),
          (''4'', open_day ''10:00'' ''20:00''),
          (''5'', open_day ''14:00'' ''22:00''),
          (''6'', closed_day)],
       p_rating = 49 / 10, reviewCount = 89\<rparr>,
      \<lparr>p_id = ''3'',
       workingHours =
         [(''0'', closed_day),
          (''1'', open_day ''10:00'' ''19:00''),
          (''2'', open_day ''10:00'' ''19:00''),
          (''3'', open_day ''10:00'' ''19:00''),
          (''4'', open_day ''10:00'' ''19:00''),
          (''5'', open_day ''10:00'' ''19:00''),
          (''6'', open_day ''09:00'' ''17:00'')],
       p_rating = 47 / 10, reviewCount = 56\<rparr>]"

definition mk_service :: "string \<Rightarrow> string \<Rightarrow> rat \<Rightarrow> string \<Rightarrow> nat \<Rightarrow> service" where
  "mk_service i p pr c d =
     \<lparr>s_id = i, s_providerId = p, price = pr, s_currency = c, duration = d, available = True\<rparr>"

definition initialServices :: "service list" where
  "initialServices =
     [mk_service ''1'' ''1'' 75 ''USD'' 60,
      mk_service ''2'' ''1'' 90 ''USD'' 75,
      mk_service ''3'' ''1'' 65 ''USD'' 90,
      mk_service ''4'' ''1'' 120 ''USD'' 60,
      mk_service ''5'' ''2'' 150 ''AED'' 90,
      mk_service ''6'' ''2'' 280 ''AED'' 60,
      mk_service ''7'' ''2'' 350 ''AED'' 75,
      mk_service ''8'' ''2'' 320 ''AED'' 120,
      mk_service ''9'' ''3'' 35 ''USD'' 30,
      mk_service ''10'' ''3'' 25 ''USD'' 20,
      mk_service ''11'' ''3'' 45 ''USD'' 45,
      mk_service ''12'' ''3'' 55 ''USD'' 60]"

text \<open>
  The initial bookings and reviews are dated relative to the day the module is loaded:
  \<open>ymd n\<close> is \<open>format(addDays(today, n), 'yyyy-MM-dd')\<close> and \<open>isoString n\<close> is
  \<open>addDays(today, n).toISOString()\<close>. \<open>comment2\<close> is the text of the second review,
  which is not ASCII.
\<close>

definition initialBookings :: "(int \<Rightarrow> string) \<Rightarrow> (int \<Rightarrow> string) \<Rightarrow> booking list" where
  "initialBookings ymd isoString =
     [\<lparr>b_id = ''1'', b_customerId = ''1'', b_providerId = ''1'', b_serviceId = ''1'',
       b_date = ymd (- 1), startTime = ''10:00'', endTime = ''11:00'', b_status = Completed,
       totalPrice = 75, b_currency = ''USD'', b_notes = Some ''First time customer'',
       b_createdAt = isoString (- 3), b_updatedAt = isoString (- 1)\<rparr>,
      \<lparr>b_id = ''2'', b_customerId = ''1'', b_providerId = ''2'', b_serviceId = ''6'',
       b_date = ymd 1, startTime = ''14:00'', endTime = ''15:00'', b_status = Confirmed,
       totalPrice = 280, b_currency = ''AED'', b_notes = None,
       b_createdAt = isoString (- 1), b_updatedAt = isoString (- 1)\<rparr>,
      \<lparr>b_id = ''3'', b_customerId = ''3'', b_providerId = ''2'', b_serviceId = ''5'',
       b_date = ymd 7, startTime = ''16:00'', endTime = ''17:30'', b_status = Confirmed,
       totalPrice = 150, b_currency = ''AED'', b_notes = Some ''First hammam experience'',
       b_createdAt = isoString (- 3), b_updatedAt = isoString (- 3)\<rparr>,
      \<lparr>b_id = ''4'', b_customerId = ''3'', b_providerId = ''3'', b_serviceId = ''12'',
       b_date = ymd (- 1), startTime = ''11:00'', endTime = ''12:00'', b_status = Completed,
       totalPrice = 55, b_currency = ''USD'', b_notes = None,
       b_createdAt = isoString (- 6), b_updatedAt = isoString (- 1)\<rparr>,
      \<lparr>b_id = ''5'', b_customerId = ''1'', b_providerId = ''1'', b_serviceId = ''2'',
       b_date = ymd 3, startTime = ''15:00'', endTime = ''16:15'', b_status = Pending,
       totalPrice = 90, b_currency = ''USD'', b_notes = Some ''Special occasion makeup'',
       b_createdAt = isoString 0, b_updatedAt = isoString 0\<rparr>]"

definition initialReviews :: "(int \<Rightarrow> string) \<Rightarrow> string \<Rightarrow> review list" where
  "initialReviews isoString comment2 =
     [\<lparr>r_id = ''1'', r_bookingId = ''1'', r_customerId = ''1'', r_providerId = ''1'',
       r_serviceId = ''1'', r_rating = 5,
       comment = ''Amazing haircut! Exactly what I wanted and the stylist was very professional.'',
       r_createdAt = isoString (- 1), r_updatedAt = isoString (- 1)\<rparr>,
      \<lparr>r_id = ''2'', r_bookingId = ''4'', r_customerId = ''3'', r_providerId = ''3'',
       r_serviceId = ''12'', r_rating = 4, comment = comment2,
       r_createdAt = isoString (- 1), r_updatedAt = isoString (- 1)\<rparr>]"

definition initialState :: "(int \<Rightarrow> string) \<Rightarrow> (int \<Rightarrow> string) \<Rightarrow> string \<Rightarrow> state" where
  "initialState ymd isoString comment2 =
     \<lparr>mockProviders = initialProviders, mockServices = initialServices,
      mockBookings = initialBookings ymd isoString, mockReviews = initialReviews isoString comment2\<rparr>"

text \<open>The operations that change the data, each with the time of the request.\<close>

datatype operation =
    CreateBooking string booking_data
  | UpdateBooking string string booking_patch
  | CancelBooking string string
  | CreateReview string review_data
  | UpdateReview string string review_patch
  | DeleteReview string

fun step :: "weekday_key \<Rightarrow> state \<Rightarrow> operation \<Rightarrow> state" where
  "step dayOfWeek st (CreateBooking now data) = snd (post_booking dayOfWeek now data st)"
| "step dayOfWeek st (UpdateBooking now bid data) = snd (put_booking now bid data st)"
| "step dayOfWeek st (CancelBooking now bid) = snd (delete_booking now bid st)"
| "step dayOfWeek st (CreateReview now data) = snd (post_review now data st)"
| "step dayOfWeek st (UpdateReview now rid data) = snd (put_review now rid data st)"
| "step dayOfWeek st (DeleteReview rid) = snd (delete_review rid st)"

definition run :: "weekday_key \<Rightarrow> state \<Rightarrow> operation list \<Rightarrow> state" where
  "run dayOfWeek st ops = foldl (step dayOfWeek) st ops"

subsection \<open>Notions used to state the properties\<close>

text \<open>
  A time of day \<open>HH:mm\<close>: two digits, a colon, two digits, the hour below 24 and the
  minute below 60; and the minute of the day it encodes.
\<close>

definition is_HHmm :: "string \<Rightarrow> bool" where
  "is_HHmm s =
     (case s of
        [a, b, c, d, e] \<Rightarrow>
          is_digit a \<and> is_digit b \<and> c = CHR '':'' \<and> is_digit d \<and> is_digit e \<and>
          10 * digit_val a + digit_val b < 24 \<and> 10 * digit_val d + digit_val e < 60
      | _ \<Rightarrow> False)"

definition minute_of_day :: "string \<Rightarrow> nat" where
  "minute_of_day s =
     (case s of
        [a, b, c, d, e] \<Rightarrow>
          60 * (10 * digit_val a + digit_val b) + (10 * digit_val d + digit_val e)
      | _ \<Rightarrow> 0)"

text \<open>The text of minute \<open>t\<close> of the day, and the 30-minute slot that starts there.\<close>

definition clock :: "nat \<Rightarrow> string" where
  "clock t = fmt_time (t div 60) (t mod 60)"

definition slot_at :: "nat \<Rightarrow> slot" where
  "slot_at t = \<lparr>slot_start = clock t, slot_end = clock (t + 30)\<rparr>"

text \<open>
  Occupying bookings, and the pairs of bookings that compete for a provider's day:
  two occupying bookings with the same provider id and the same date text. The date is
  compared as the filter compares it (\<open>booking.date === date\<close>), as text, so two
  spellings of one calendar day are two dates. \<open>overlap\<close> is the half-open test on
  \<open>[startTime, endTime)\<close>; \<open>starts_inside b c\<close> says that \<open>c\<close> starts within the window
  of \<open>b\<close>.
\<close>

definition occupying :: "booking \<Rightarrow> bool" where
  "occupying b = (b_status b = Pending \<or> b_status b = Confirmed)"

definition rivals :: "booking \<Rightarrow> booking \<Rightarrow> bool" where
  "rivals b c = (occupying b \<and> occupying c \<and>
                 b_providerId b = b_providerId c \<and> b_date b = b_date c)"

definition overlap :: "booking \<Rightarrow> booking \<Rightarrow> bool" where
  "overlap b c = (startTime b < endTime c \<and> startTime c < endTime b)"

definition starts_inside :: "booking \<Rightarrow> booking \<Rightarrow> bool" where
  "starts_inside b c = (startTime b \<le> startTime c \<and> startTime c < endTime b)"

text \<open>
  No booking of the ledger is, with a rival that comes later in the ledger, in the
  relation \<open>R\<close>. With \<open>overlap\<close>: no two occupying bookings of one provider and date
  overlap. With \<open>starts_inside\<close>: no occupying booking starts inside an earlier rival.
\<close>

fun no_clash :: "(booking \<Rightarrow> booking \<Rightarrow> bool) \<Rightarrow> booking list \<Rightarrow> bool" where
  "no_clash R [] = True"
| "no_clash R (b # bs) = (list_all (\<lambda>c. \<not> (rivals b c \<and> R b c)) bs \<and> no_clash R bs)"

definition no_double_booking :: "booking list \<Rightarrow> bool" where
  "no_double_booking bs = no_clash overlap bs"

definition no_start_inside_earlier :: "booking list \<Rightarrow> bool" where
  "no_start_inside_earlier bs = no_clash starts_inside bs"

fun is_create :: "operation \<Rightarrow> bool" where
  "is_create (CreateBooking now data) = True"
| "is_create _ = False"

text \<open>The mean of the ratings of a list of reviews.\<close>

definition mean_of :: "review list \<Rightarrow> rat" where
  "mean_of rs = of_int (sum_list (map r_rating rs)) / of_nat (length rs)"

subsection \<open>Concrete data for the examples\<close>

text \<open>The data as loaded on Friday 6 June 2025.\<close>

definition exampleYmd :: "int \<Rightarrow> string" where
  "exampleYmd n =
     (if n = - 6 then ''2025-05-31'' else if n = - 3 then ''2025-06-03''
      else if n = - 1 then ''2025-06-05'' else if n = 1 then ''2025-06-07''
      else if n = 3 then ''2025-06-09'' else if n = 7 then ''2025-06-13''
      else ''2025-06-06'')"

definition exampleIso :: "int \<Rightarrow> string" where
  "exampleIso n = exampleYmd n @ ''T08:00:00.000Z''"

definition exampleState :: state where
  "exampleState = initialState exampleYmd exampleIso ''good service''"

text \<open>
  The library's answer on the date texts of the examples: 9 June 2025, written
  \<open>2025-06-09\<close> or \<open>20250609\<close>, and 16 June 2025 are Mondays. \<open>exampleDay\<close> stands in
  for \<open>parseISO(date).getDay().toString()\<close> in the examples, which ask for the day of
  no other text.
\<close>

definition exampleDay :: weekday_key where
  "exampleDay date =
     (if date = ''2025-06-09'' \<or> date = ''20250609'' \<or> date = ''2025-06-16''
      then ''1'' else ''NaN'')"

definition no_patch :: booking_patch where
  "no_patch =
     \<lparr>u_id = None, u_customerId = None, u_providerId = None, u_serviceId = None,
      u_date = None, u_startTime = None, u_endTime = None, u_status = None,
      u_totalPrice = None, u_currency = None, u_notes = None, u_createdAt = None\<rparr>"

definition request :: "string \<Rightarrow> string \<Rightarrow> string \<Rightarrow> string \<Rightarrow> booking_data" where
  "request providerId serviceId date start =
     \<lparr>d_customerId = Some ''1'', d_providerId = Some providerId, d_serviceId = Some serviceId,
      d_date = Some date, d_startTime = Some start, d_notes = None\<rparr>"

text \<open>
  src/app/provider/calendar/page.tsx: the status buttons that the booking dialog of the
  provider's calendar renders for a booking, by its status. Each button sends
  \<open>PUT /api/bookings/:id\<close> with the body \<open>{ status }\<close>.
\<close>

fun offeredStatuses :: "status \<Rightarrow> status list" where
  "offeredStatuses Pending = [Confirmed, Cancelled]"
| "offeredStatuses Confirmed = [Completed, Cancelled]"
| "offeredStatuses Cancelled = []"
| "offeredStatuses Completed = []"

text \<open>
  An operation is permitted in a state when it is not a booking update, or is an
  update of an unknown booking, or is one of the status changes that the calendar
  offers for the booking it updates.
\<close>

fun permitted :: "state \<Rightarrow> operation \<Rightarrow> bool" where
  "permitted st (UpdateBooking now bid data) =
     (case findIndex (\<lambda>b. b_id b = bid) (mockBookings st) of
        None \<Rightarrow> True
      | Some i \<Rightarrow>
          list_ex (\<lambda>s. data = no_patch\<lparr>u_status := Some s\<rparr>)
                  (offeredStatuses (b_status (mockBookings st ! i))))"
| "permitted st _ = True"

fun permitted_run :: "weekday_key \<Rightarrow> state \<Rightarrow> operation list \<Rightarrow> bool" where
  "permitted_run dayOfWeek st [] = True"
| "permitted_run dayOfWeek st (op # ops) =
     (permitted st op \<and> permitted_run dayOfWeek (step dayOfWeek st op) ops)"

text \<open>Two requests for provider 1 and service 1 (60 minutes) on Monday 16 June 2025.\<close>

definition twoRequests :: "operation list" where
  "twoRequests =
     [CreateBooking ''t1'' (request ''1'' ''1'' ''2025-06-16'' ''10:00''),
      CreateBooking ''t2'' (request ''1'' ''1'' ''2025-06-16'' ''09:30'')]"

text \<open>
  A provider open from 09:00 to 10:00 on Mondays, with one service of 45 minutes and no
  bookings.
\<close>

definition shortDayState :: state where
  "shortDayState =
     \<lparr>mockProviders =
        [\<lparr>p_id = ''1'', workingHours = [(''1'', open_day ''09:00'' ''10:00'')],
          p_rating = 0, reviewCount = 0\<rparr>],
      mockServices = [mk_service ''1'' ''1'' 45 ''USD'' 45],
      mockBookings = [],
      mockReviews = []\<rparr>"

text \<open>Every working period of every provider is written as \<open>HH:mm\<close> times.\<close>

definition wellformed_hours :: "state \<Rightarrow> bool" where
  "wellformed_hours st =
     list_all (\<lambda>p. list_all (\<lambda>kd. list_all (\<lambda>q. is_HHmm (slot_start q) \<and> is_HHmm (slot_end q))
                                        (slots (snd kd)))
                             (workingHours p))
              (mockProviders st)"

text \<open>
  The services and the working hours are those of the initial data. No handler writes
  to either.
\<close>

definition same_catalogue :: "state \<Rightarrow> bool" where
  "same_catalogue st =
     (mockServices st = initialServices \<and>
      map (\<lambda>p. (p_id p, workingHours p)) (mockProviders st) =
      map (\<lambda>p. (p_id p, workingHours p)) initialProviders)"

text \<open>A review request that passes the check of the required fields.\<close>

definition complete_review :: "review_data \<Rightarrow> bool" where
  "complete_review data =
     (truthy (v_bookingId data) \<and> truthy (v_customerId data) \<and> truthy (v_providerId data) \<and>
      truthy (v_serviceId data) \<and> v_rating data \<noteq> None \<and> v_rating data \<noteq> Some 0)"

definition reviewRequest :: "string \<Rightarrow> string \<Rightarrow> string \<Rightarrow> int \<Rightarrow> review_data" where
  "reviewRequest bookingId providerId serviceId rating =
     \<lparr>v_bookingId = Some bookingId, v_customerId = Some ''1'', v_providerId = Some providerId,
      v_serviceId = Some serviceId, v_rating = Some rating, v_comment = None\<rparr>"

text \<open>
  The initial data after booking 2 has been marked completed, and then after it has
  been reviewed with 3 stars.
\<close>

definition completedState :: state where
  "completedState = snd (put_booking ''t1'' ''2'' (no_patch\<lparr>u_status := Some Completed\<rparr>) exampleState)"

definition reviewedState :: state where
  "reviewedState = snd (post_review ''t2'' (reviewRequest ''2'' ''2'' ''6'' 3) completedState)"

text \<open>The three-clause test of the filter, on the minutes of the day.\<close>

definition conflicts_in_minutes :: "booking \<Rightarrow> slot \<Rightarrow> bool" where
  "conflicts_in_minutes booking slot =
     (minute_of_day (startTime booking) \<le> minute_of_day (slot_start slot) \<and>
        minute_of_day (endTime booking) > minute_of_day (slot_start slot) \<or>
      minute_of_day (startTime booking) < minute_of_day (slot_end slot) \<and>
        minute_of_day (endTime booking) \<ge> minute_of_day (slot_end slot) \<or>
      minute_of_day (startTime booking) \<ge> minute_of_day (slot_start slot) \<and>
        minute_of_day (endTime booking) \<le> minute_of_day (slot_end slot))"

text \<open>
  The initial data after an update has given booking 5 (pending, provider 1, on
  \<open>2025-06-09\<close>) the start 10:00 and the end 10:00.
\<close>

definition emptyBookingState :: state where
  "emptyBookingState =
     snd (put_booking ''t'' ''5''
            (no_patch\<lparr>u_startTime := Some ''10:00'', u_endTime := Some ''10:00''\<rparr>) exampleState)"

section \<open>Properties\<close>

subsection \<open>Digits and times of day as text\<close>

lemma is_digit_iff: "is_digit c = (48 \<le> (of_char c :: nat) \<and> (of_char c :: nat) \<le> 57)"
  by (simp add: is_digit_def less_eq_char_def)

lemma digit_char_val: "d < 10 \<Longrightarrow> digit_val (digit_char d) = d"
  by (simp add: digit_val_def digit_char_def)

lemma digit_char_digit: "d < 10 \<Longrightarrow> is_digit (digit_char d)"
  by (simp add: is_digit_iff digit_char_def)

lemma digit_val_lt: "is_digit c \<Longrightarrow> digit_val c < 10"
  by (auto simp add: is_digit_iff digit_val_def)

lemma digit_char_of_val: "is_digit c \<Longrightarrow> digit_char (digit_val c) = c"
  by (simp add: is_digit_iff digit_val_def digit_char_def)

lemma digit_less: "is_digit a \<Longrightarrow> is_digit b \<Longrightarrow> (a < b) = (digit_val a < digit_val b)"
  by (auto simp add: is_digit_iff digit_val_def less_char_def)

lemma digit_eq: "is_digit a \<Longrightarrow> is_digit b \<Longrightarrow> (a = b) = (digit_val a = digit_val b)"
  by (metis digit_char_of_val)

lemma digit_not_colon: "is_digit c \<Longrightarrow> c \<noteq> CHR '':''"
  by (auto simp add: is_digit_iff)





lemma foldl_zero: "foldl (\<lambda>a c. 10 * a + digit_val c) 0 (CHR ''0'' # s) = foldl (\<lambda>a c. 10 * a + digit_val c) 0 s"
  by (simp add: digit_val_def)



lemma split_colon_digits: "list_all is_digit s \<Longrightarrow> split_colon s = [s]"
  by (induction s) (auto simp: digit_not_colon)

lemma split_colon_two:
  "list_all is_digit s \<Longrightarrow> list_all is_digit t \<Longrightarrow> split_colon (s @ CHR '':'' # t) = [s, t]"
  by (induction s) (auto simp: digit_not_colon split_colon_digits)


lemma digit_char_zero: "digit_char 0 = CHR ''0''"
proof -
  have "char_of (of_char CHR ''0'' :: nat) = CHR ''0''" by (rule char_of_char)
  then show ?thesis by (simp add: digit_char_def)
qed

lemma toString_two: "n < 100 \<Longrightarrow> padStart2 (toString n) = [digit_char (n div 10), digit_char (n mod 10)]"
proof (cases "n < 10")
  case True
  then show ?thesis by (subst toString.simps) (simp add: padStart2_def digit_char_zero)
next
  case False
  assume "n < 100"
  then have "n div 10 < 10" by simp
  then have "toString (n div 10) = [digit_char (n div 10)]" by (subst toString.simps) simp
  then show ?thesis using False by (subst toString.simps) (simp add: padStart2_def)
qed

lemma fmt_time_chars:
  "h < 100 \<Longrightarrow> m < 100 \<Longrightarrow>
   fmt_time h m = [digit_char (h div 10), digit_char (h mod 10), CHR '':'',
                   digit_char (m div 10), digit_char (m mod 10)]"
  by (simp add: fmt_time_def toString_two)

lemma fmt_time_HHmm: "h < 24 \<Longrightarrow> m < 60 \<Longrightarrow> is_HHmm (fmt_time h m)"
  by (simp add: fmt_time_chars is_HHmm_def digit_char_digit digit_char_val)

lemma fmt_time_minute: "h < 24 \<Longrightarrow> m < 60 \<Longrightarrow> minute_of_day (fmt_time h m) = 60 * h + m"
proof -
  assume "h < 24" "m < 60"
  moreover have "600 * (h div 10) + 60 * (h mod 10) = 60 * h"
  proof -
    have "60 * (10 * (h div 10) + h mod 10) = 60 * h"
      by (simp only: div_mult_mod_eq mult_div_mod_eq)
    then show ?thesis by (simp only: distrib_left mult.assoc[symmetric])
  qed
  ultimately show ?thesis
    by (simp add: fmt_time_chars minute_of_day_def digit_char_val)
qed

lemma lex_less:
  fixes a a' b b' k :: nat
  assumes "b < k" "b' < k"
  shows "(a < a' \<or> a = a' \<and> b < b') = (k * a + b < k * a' + b')"
proof (cases a a' rule: linorder_cases)
  case less
  then have "k * Suc a \<le> k * a'" by (intro mult_le_mono2) simp
  then have "k * a + b < k * a' + b'" using assms(1) by simp
  then show ?thesis using less by simp
next
  case equal
  then show ?thesis by simp
next
  case greater
  then have "k * Suc a' \<le> k * a" by (intro mult_le_mono2) simp
  then have "k * a' + b' < k * a + b" using assms(2) by simp
  then show ?thesis using greater by simp
qed

lemma lex_eq:
  fixes a a' b b' k :: nat
  assumes "b < k" "b' < k"
  shows "(a = a' \<and> b = b') = (k * a + b = k * a' + b')"
  using lex_less[OF assms, of a a'] lex_less[OF assms(2) assms(1), of a' a] by auto

lemma HHmm_less:
  assumes "is_HHmm s" "is_HHmm t"
  shows "(s < t) = (minute_of_day s < minute_of_day t)"
proof -
  obtain a b c d e where s: "s = [a, b, c, d, e]"
    using assms(1) by (auto simp: is_HHmm_def split: list.splits)
  obtain a' b' c' d' e' where t: "t = [a', b', c', d', e']"
    using assms(2) by (auto simp: is_HHmm_def split: list.splits)
  have ds: "is_digit a" "is_digit b" "c = CHR '':''" "is_digit d" "is_digit e"
       "10 * digit_val d + digit_val e < 60"
    using assms(1) by (auto simp: is_HHmm_def s)
  have dt: "is_digit a'" "is_digit b'" "c' = CHR '':''" "is_digit d'" "is_digit e'"
       "10 * digit_val d' + digit_val e' < 60"
    using assms(2) by (auto simp: is_HHmm_def t)
  note lt = digit_val_lt[OF ds(1)] digit_val_lt[OF ds(2)] digit_val_lt[OF ds(4)] digit_val_lt[OF ds(5)]
            digit_val_lt[OF dt(1)] digit_val_lt[OF dt(2)] digit_val_lt[OF dt(4)] digit_val_lt[OF dt(5)]
  have "(s < t) =
        (digit_val a < digit_val a' \<or> digit_val a = digit_val a' \<and>
         (digit_val b < digit_val b' \<or> digit_val b = digit_val b' \<and>
          (digit_val d < digit_val d' \<or> digit_val d = digit_val d' \<and> digit_val e < digit_val e')))"
    unfolding s t
    by (simp add: ds(3) dt(3) digit_less[OF ds(1) dt(1)] digit_less[OF ds(2) dt(2)]
          digit_less[OF ds(4) dt(4)] digit_less[OF ds(5) dt(5)]
          digit_eq[OF ds(1) dt(1)] digit_eq[OF ds(2) dt(2)]
          digit_eq[OF ds(4) dt(4)] digit_eq[OF ds(5) dt(5)])
  also have "\<dots> =
        (10 * digit_val a + digit_val b < 10 * digit_val a' + digit_val b' \<or>
         10 * digit_val a + digit_val b = 10 * digit_val a' + digit_val b' \<and>
         10 * digit_val d + digit_val e < 10 * digit_val d' + digit_val e')"
    using lex_less[OF lt(2) lt(6), of "digit_val a" "digit_val a'"]
          lex_eq[OF lt(2) lt(6), of "digit_val a" "digit_val a'"]
          lex_less[OF lt(4) lt(8), of "digit_val d" "digit_val d'"]
    by blast
  also have "\<dots> = (minute_of_day s < minute_of_day t)"
    unfolding s t minute_of_day_def using lex_less[OF ds(6) dt(6)] by simp
  finally show ?thesis .
qed

lemma HHmm_inj: "is_HHmm s \<Longrightarrow> is_HHmm t \<Longrightarrow> minute_of_day s = minute_of_day t \<Longrightarrow> s = t"
proof -
  assume a: "is_HHmm s" "is_HHmm t" "minute_of_day s = minute_of_day t"
  have "\<not> s < t" "\<not> t < s"
    using HHmm_less[OF a(1) a(2)] HHmm_less[OF a(2) a(1)] a(3) by simp_all
  then show "s = t" using not_less_iff_gr_or_eq[of s t] by simp
qed

lemma HHmm_le:
  assumes "is_HHmm s" "is_HHmm t"
  shows "(s \<le> t) = (minute_of_day s \<le> minute_of_day t)"
proof -
  have "(s \<le> t) = (\<not> t < s)" by (simp add: not_less)
  also have "\<dots> = (\<not> minute_of_day t < minute_of_day s)"
    by (simp only: HHmm_less[OF assms(2) assms(1)])
  also have "\<dots> = (minute_of_day s \<le> minute_of_day t)" by (simp add: not_less)
  finally show ?thesis .
qed

subsection \<open>The slot loop in closed form\<close>

lemma clock_hm: "m < 60 \<Longrightarrow> fmt_time h m = clock (60 * h + m)"
  by (simp add: clock_def)

lemma map_upt_shift: "map f [0..<Suc n] = f 0 # map (\<lambda>k. f (Suc k)) [0..<n]"
proof -
  have "[0..<Suc n] = 0 # map Suc [0..<n]"
    by (simp only: map_Suc_upt upt_conv_Cons[OF zero_less_Suc])
  then show ?thesis by (simp only: list.map map_map o_def)
qed

lemma slot_loop_closed:
  "cm < 60 \<Longrightarrow> em < 60 \<Longrightarrow>
   slot_loop ch cm eh em =
     map (\<lambda>k. slot_at (60 * ch + cm + 30 * k)) [0..<(60 * eh + em - (60 * ch + cm)) div 30]"
proof (induction ch cm eh em rule: slot_loop.induct)
  case (1 ch cm eh em)
  let ?c = "60 * ch + cm" and ?e = "60 * eh + em"
  have cond: "(ch < eh \<or> (ch = eh \<and> cm < em)) = (?c < ?e)"
    using "1.prems" by auto
  show ?case
  proof (cases "?c < ?e")
    case False
    then have "(?e - ?c) div 30 = 0" by simp
    moreover have "slot_loop ch cm eh em = []"
      using False cond by (subst slot_loop.simps) simp
    ultimately show ?thesis by simp
  next
    case True
    define h2 where "h2 = (if cm + 30 \<ge> 60 then ch + 1 else ch)"
    define m2 where "m2 = (if cm + 30 \<ge> 60 then cm + 30 - 60 else cm + 30)"
    have m2: "m2 < 60" and c2: "60 * h2 + m2 = ?c + 30"
      using "1.prems" by (auto simp: h2_def m2_def)
    have cond2: "(h2 < eh \<or> (h2 = eh \<and> m2 \<le> em)) = (?c + 30 \<le> ?e)"
      using m2 c2 "1.prems" by auto
    have IH: "slot_loop h2 m2 eh em =
        map (\<lambda>k. slot_at (60 * h2 + m2 + 30 * k)) [0..<(?e - (60 * h2 + m2)) div 30]"
      using "1.IH"[OF _ refl refl refl refl, of ] True cond m2 "1.prems"(2)
      unfolding h2_def m2_def by simp
    have unfold: "slot_loop ch cm eh em =
        (if ?c + 30 \<le> ?e then [\<lparr>slot_start = fmt_time ch cm, slot_end = fmt_time h2 m2\<rparr>] else [])
        @ slot_loop h2 m2 eh em"
      using True cond cond2
      by (subst slot_loop.simps) (simp add: Let_def h2_def m2_def)
    show ?thesis
    proof (cases "?c + 30 \<le> ?e")
      case le: True
      then have n: "(?e - ?c) div 30 = Suc ((?e - (?c + 30)) div 30)"
        using le_div_geq[of 30 "?e - ?c"] by simp
      have s0: "\<lparr>slot_start = fmt_time ch cm, slot_end = fmt_time h2 m2\<rparr> = slot_at ?c"
        using clock_hm[OF "1.prems"(1), of ch] clock_hm[OF m2, of h2] c2
        by (simp add: slot_at_def)
      show ?thesis
        unfolding unfold IH c2 n map_upt_shift using le s0
        by (simp add: algebra_simps)
    next
      case gt: False
      then have "(?e - (?c + 30)) div 30 = 0" "(?e - ?c) div 30 = 0" using True by auto
      then show ?thesis unfolding unfold IH c2 using gt by simp
    qed
  qed
qed

subsection \<open>Slot generation\<close>

lemma step_points:
  fixes s e k :: nat
  shows "(k < (e - s) div 30) = (s + 30 * k + 30 \<le> e)"
proof -
  have "(k < (e - s) div 30) = (Suc k \<le> (e - s) div 30)" by auto
  also have "\<dots> = (Suc k * 30 \<le> e - s)" by (simp only: less_eq_div_iff_mult_less_eq[OF zero_less_numeral])
  also have "\<dots> = (s + 30 * k + 30 \<le> e)" by auto
  finally show ?thesis .
qed

text \<open>
  Claim C4. For a working period whose start and end are read as \<open>sh:sm\<close> and
  \<open>eh:em\<close> (minutes below 60), the loop emits the 30-minute slot starting at minute
  \<open>t = start + 30 * k\<close> for \<open>k = 0, 1, 2, ...\<close>, in this order, for exactly the
  step points with \<open>t + 30 \<le> end\<close>. The period 09:00 to 17:00 gives 16 slots, the
  first from 09:00 to 09:30 and the last from 16:30 to 17:00. The step is the constant
  30 of the source.
\<close>

theorem slot_generation_steps:
  assumes "parse_time (slot_start period) = Some (sh, sm)"
    and "parse_time (slot_end period) = Some (eh, em)"
    and "sm < 60" and "em < 60"
  shows "period_slots period =
           map (\<lambda>k. slot_at (60 * sh + sm + 30 * k)) [0..<(60 * eh + em - (60 * sh + sm)) div 30]
         \<and> (\<forall>k. (k < (60 * eh + em - (60 * sh + sm)) div 30) =
                  (60 * sh + sm + 30 * k + 30 \<le> 60 * eh + em))
         \<and> length (period_slots \<lparr>slot_start = ''09:00'', slot_end = ''17:00''\<rparr>) = 16
         \<and> hd (period_slots \<lparr>slot_start = ''09:00'', slot_end = ''17:00''\<rparr>) =
             \<lparr>slot_start = ''09:00'', slot_end = ''09:30''\<rparr>
         \<and> last (period_slots \<lparr>slot_start = ''09:00'', slot_end = ''17:00''\<rparr>) =
             \<lparr>slot_start = ''16:30'', slot_end = ''17:00''\<rparr>"
proof -
  have a: "period_slots period =
           map (\<lambda>k. slot_at (60 * sh + sm + 30 * k)) [0..<(60 * eh + em - (60 * sh + sm)) div 30]"
    using assms by (simp add: period_slots_def slot_loop_closed)
  have b: "\<forall>k. (k < (60 * eh + em - (60 * sh + sm)) div 30) =
                  (60 * sh + sm + 30 * k + 30 \<le> 60 * eh + em)"
    using step_points by blast
  have c: "length (period_slots \<lparr>slot_start = ''09:00'', slot_end = ''17:00''\<rparr>) = 16"
    by code_simp
  have d: "hd (period_slots \<lparr>slot_start = ''09:00'', slot_end = ''17:00''\<rparr>) =
             \<lparr>slot_start = ''09:00'', slot_end = ''09:30''\<rparr>"
    by code_simp
  have e: "last (period_slots \<lparr>slot_start = ''09:00'', slot_end = ''17:00''\<rparr>) =
             \<lparr>slot_start = ''16:30'', slot_end = ''17:00''\<rparr>"
    by code_simp
  show ?thesis using a b c d e by blast
qed

theorem slot_generation_steps_witness:
  "period_slots \<lparr>slot_start = ''09:00'', slot_end = ''10:15''\<rparr> = [slot_at 540, slot_at 570]
   \<and> parse_time ''09:00'' = Some (9, 0) \<and> parse_time ''10:15'' = Some (10, 15)"
proof -
  have p1: "parse_time (slot_start \<lparr>slot_start = ''09:00'', slot_end = ''10:15''\<rparr>) = Some (9, 0)"
    by code_simp
  have p2: "parse_time (slot_end \<lparr>slot_start = ''09:00'', slot_end = ''10:15''\<rparr>) = Some (10, 15)"
    by code_simp
  have n: "[0..<(60 * 10 + 15 - (60 * 9 + 0)) div 30] = [0, Suc 0]"
    by code_simp
  show ?thesis
    using slot_generation_steps[OF p1 p2, of] p1 p2 n by (simp del: upt_Suc)
qed

subsection \<open>Times of day as text and as minutes\<close>

lemma HHmm_parse:
  assumes "is_HHmm s"
  shows "parse_time s = Some (minute_of_day s div 60, minute_of_day s mod 60)
         \<and> minute_of_day s div 60 < 24"
proof -
  obtain a b c d e where s: "s = [a, b, c, d, e]"
    using assms by (auto simp: is_HHmm_def split: list.splits)
  have ds: "is_digit a" "is_digit b" "c = CHR '':''" "is_digit d" "is_digit e"
       "10 * digit_val a + digit_val b < 24" "10 * digit_val d + digit_val e < 60"
    using assms by (auto simp: is_HHmm_def s)
  have sp: "split_colon s = [[a, b], [d, e]]"
    using split_colon_two[of "[a, b]" "[d, e]"] ds by (simp add: s)
  define H where "H = 10 * digit_val a + digit_val b"
  define M where "M = 10 * digit_val d + digit_val e"
  have "parse_time s = Some (H, M)"
    using ds by (simp add: parse_time_def sp Number_def H_def M_def)
  moreover have "minute_of_day s = 60 * H + M"
    by (simp only: minute_of_day_def s H_def M_def list.case)
  moreover have "H < 24" "M < 60" using ds(6,7) by (simp_all add: H_def M_def)
  ultimately show ?thesis by simp
qed

lemma clock_HHmm: "t < 1440 \<Longrightarrow> is_HHmm (clock t) \<and> minute_of_day (clock t) = t"
proof -
  assume "t < 1440"
  then have "t div 60 < 24" "t mod 60 < 60" by auto
  then show ?thesis
    using fmt_time_HHmm[of "t div 60" "t mod 60"] fmt_time_minute[of "t div 60" "t mod 60"]
    by (simp add: clock_def)
qed

lemma period_slots_HHmm:
  assumes "is_HHmm (slot_start period)" "is_HHmm (slot_end period)" "s \<in> set (period_slots period)"
  shows "is_HHmm (slot_start s) \<and> is_HHmm (slot_end s)"
proof -
  let ?b = "minute_of_day (slot_start period)" and ?e = "minute_of_day (slot_end period)"
  have ps: "parse_time (slot_start period) = Some (?b div 60, ?b mod 60)"
    and pe: "parse_time (slot_end period) = Some (?e div 60, ?e mod 60)" and e: "?e div 60 < 24"
    using HHmm_parse[OF assms(1)] HHmm_parse[OF assms(2)] by simp_all
  have "period_slots period = map (\<lambda>k. slot_at (?b + 30 * k)) [0..<(?e - ?b) div 30]"
    using slot_loop_closed[of "?b mod 60" "?e mod 60" "?b div 60" "?e div 60"]
    by (simp add: period_slots_def ps pe)
  then obtain k where k: "k < (?e - ?b) div 30" and s: "s = slot_at (?b + 30 * k)"
    using assms(3) by auto
  have "?b + 30 * k + 30 \<le> ?e" using k step_points[of k ?e ?b] by simp
  moreover have "?e < 1440" using e by (simp add: div_less_iff_less_mult)
  ultimately have "?b + 30 * k < 1440" "?b + 30 * k + 30 < 1440" by simp_all
  then show ?thesis using clock_HHmm by (simp add: s slot_at_def)
qed

lemma find_SomeD_mem: "find P xs = Some x \<Longrightarrow> x \<in> set xs \<and> P x"
  by (induction xs) (auto split: if_splits)

lemma available_slots_subset:
  "s \<in> set (generateAvailableSlots dayOfWeek st providerId date) \<Longrightarrow>
   \<exists>provider k wd period. provider \<in> set (mockProviders st) \<and> (k, wd) \<in> set (workingHours provider)
      \<and> period \<in> set (slots wd) \<and> s \<in> set (period_slots period)"
proof -
  assume s: "s \<in> set (generateAvailableSlots dayOfWeek st providerId date)"
  then obtain provider where p: "find (\<lambda>p. p_id p = providerId) (mockProviders st) = Some provider"
    by (cases "find (\<lambda>p. p_id p = providerId) (mockProviders st)")
       (auto simp: generateAvailableSlots_def)
  from s p obtain wd where w: "map_of (workingHours provider) (dayOfWeek date) = Some wd"
    by (cases "map_of (workingHours provider) (dayOfWeek date)")
       (auto simp: generateAvailableSlots_def)
  from s p w have "s \<in> set (concat (map period_slots (slots wd)))"
    by (auto simp: generateAvailableSlots_def split: if_splits)
  then obtain period where "period \<in> set (slots wd)" "s \<in> set (period_slots period)"
    by auto
  moreover have "provider \<in> set (mockProviders st)" using find_SomeD_mem[OF p] by simp
  moreover have "(dayOfWeek date, wd) \<in> set (workingHours provider)"
    using map_of_SomeD[OF w] .
  ultimately show ?thesis by blast
qed

subsection \<open>The overlap test of the filter\<close>

lemma conflicts_strict:
  fixes bs be ss se :: "'a::linorder"
  assumes "bs < be" "ss < se"
  shows "(bs \<le> ss \<and> be > ss \<or> bs < se \<and> be \<ge> se \<or> bs \<ge> ss \<and> be \<le> se) = (ss < be \<and> bs < se)"
  using assms by auto

lemma conflicts_or_inside:
  fixes bs be ss se :: "'a::linorder"
  assumes "ss < se"
  shows "(bs \<le> ss \<and> be > ss \<or> bs < se \<and> be \<ge> se \<or> bs \<ge> ss \<and> be \<le> se) =
         (ss < be \<and> bs < se \<or> ss \<le> bs \<and> be \<le> se)"
  using assms by auto

text \<open>
  Claim C3, as stated, fails on a booking whose interval is empty. The update handler
  stores any start and end: after booking 5 has been given the start 10:00 and the
  end 10:00, the test of the filter reports a conflict with the slot from 10:00 to
  10:30 (and with the slot from 09:30 to 10:00), where \<open>start < bEnd\<close> is false. Both
  starts are missing from the slots offered.
\<close>

theorem empty_booking_counterexample:
  "startTime (mockBookings emptyBookingState ! 4) = ''10:00''
   \<and> endTime (mockBookings emptyBookingState ! 4) = ''10:00''
   \<and> b_status (mockBookings emptyBookingState ! 4) = Pending
   \<and> b_providerId (mockBookings emptyBookingState ! 4) = ''1''
   \<and> b_date (mockBookings emptyBookingState ! 4) = ''2025-06-09''
   \<and> conflicts (mockBookings emptyBookingState ! 4) \<lparr>slot_start = ''10:00'', slot_end = ''10:30''\<rparr>
   \<and> \<not> (slot_start \<lparr>slot_start = ''10:00'', slot_end = ''10:30''\<rparr>
           < endTime (mockBookings emptyBookingState ! 4)
         \<and> startTime (mockBookings emptyBookingState ! 4)
           < slot_end \<lparr>slot_start = ''10:00'', slot_end = ''10:30''\<rparr>)
   \<and> map slot_start (generateAvailableSlots exampleDay emptyBookingState ''1'' ''2025-06-09'')
       = [''09:00'', ''10:30'', ''11:00'', ''11:30'', ''12:00'', ''12:30'', ''13:00'',
          ''13:30'', ''14:00'', ''14:30'', ''15:00'', ''15:30'', ''16:00'', ''16:30'']"
  by code_simp

text \<open>
  Claim C3, amended. For an occupying booking with \<open>startTime < endTime\<close> and a slot
  with \<open>start < end\<close>, the three-clause test of the filter holds if and only if
  \<open>start < endTime\<close> and \<open>startTime < end\<close>: the half-open test, in the text order of
  the source and, for \<open>HH:mm\<close> times, in minutes of the day. For any booking, also
  one with \<open>startTime \<ge> endTime\<close>, and a slot with \<open>start < end\<close>, the test holds if
  and only if the half-open test holds or the booking lies within the slot
  (\<open>start \<le> startTime\<close> and \<open>endTime \<le> end\<close>). A booking from 10:00 to 11:00 does not
  conflict with the slot from 11:00 to 12:00 and does conflict with the slot from
  10:30 to 11:30.
\<close>

theorem conflicts_half_open:
  "(startTime b < endTime b \<and> slot_start s < slot_end s \<longrightarrow>
      conflicts b s = (slot_start s < endTime b \<and> startTime b < slot_end s))
   \<and> (slot_start s < slot_end s \<longrightarrow>
      conflicts b s = (slot_start s < endTime b \<and> startTime b < slot_end s \<or>
                       slot_start s \<le> startTime b \<and> endTime b \<le> slot_end s))
   \<and> (is_HHmm (startTime b) \<and> is_HHmm (endTime b) \<and> is_HHmm (slot_start s) \<and> is_HHmm (slot_end s)
        \<and> minute_of_day (startTime b) < minute_of_day (endTime b)
        \<and> minute_of_day (slot_start s) < minute_of_day (slot_end s) \<longrightarrow>
      conflicts b s = (minute_of_day (slot_start s) < minute_of_day (endTime b)
                       \<and> minute_of_day (startTime b) < minute_of_day (slot_end s)))
   \<and> \<not> conflicts (b\<lparr>startTime := ''10:00'', endTime := ''11:00''\<rparr>)
                   \<lparr>slot_start = ''11:00'', slot_end = ''12:00''\<rparr>
   \<and> conflicts (b\<lparr>startTime := ''10:00'', endTime := ''11:00''\<rparr>)
                 \<lparr>slot_start = ''10:30'', slot_end = ''11:30''\<rparr>"
proof -
  have 1: "conflicts b s = (slot_start s < endTime b \<and> startTime b < slot_end s)"
    if "startTime b < endTime b" "slot_start s < slot_end s"
    unfolding conflicts_def using conflicts_strict[OF that] by simp
  have 0: "conflicts b s = (slot_start s < endTime b \<and> startTime b < slot_end s \<or>
                       slot_start s \<le> startTime b \<and> endTime b \<le> slot_end s)"
    if "slot_start s < slot_end s"
    unfolding conflicts_def using conflicts_or_inside[OF that] by simp
  have 2: "conflicts b s = (minute_of_day (slot_start s) < minute_of_day (endTime b)
                       \<and> minute_of_day (startTime b) < minute_of_day (slot_end s))"
    if h: "is_HHmm (startTime b)" "is_HHmm (endTime b)" "is_HHmm (slot_start s)" "is_HHmm (slot_end s)"
      and lt: "minute_of_day (startTime b) < minute_of_day (endTime b)"
        "minute_of_day (slot_start s) < minute_of_day (slot_end s)"
  proof -
    have "startTime b < endTime b" "slot_start s < slot_end s"
      using lt HHmm_less[OF h(1) h(2)] HHmm_less[OF h(3) h(4)] by simp_all
    then show ?thesis
      using 1 HHmm_less[OF h(3) h(2)] HHmm_less[OF h(1) h(4)] by simp
  qed
  have 3: "\<not> conflicts (b\<lparr>startTime := ''10:00'', endTime := ''11:00''\<rparr>)
                   \<lparr>slot_start = ''11:00'', slot_end = ''12:00''\<rparr>"
    by (simp add: conflicts_def)
  have 4: "conflicts (b\<lparr>startTime := ''10:00'', endTime := ''11:00''\<rparr>)
                 \<lparr>slot_start = ''10:30'', slot_end = ''11:30''\<rparr>"
    by (simp add: conflicts_def)
  show ?thesis using 0 1 2 3 4 by blast
qed

theorem conflicts_half_open_witness:
  "startTime (mockBookings exampleState ! 1) = ''14:00''
   \<and> endTime (mockBookings exampleState ! 1) = ''15:00''
   \<and> ''14:00'' < ''15:00'' \<and> ''14:30'' < ''15:00''
   \<and> conflicts (mockBookings exampleState ! 1) \<lparr>slot_start = ''14:30'', slot_end = ''15:00''\<rparr>
   \<and> \<not> conflicts (mockBookings exampleState ! 1) \<lparr>slot_start = ''15:00'', slot_end = ''15:30''\<rparr>
   \<and> ''10:00'' < ''10:30''
   \<and> startTime (mockBookings emptyBookingState ! 4) = ''10:00''
   \<and> endTime (mockBookings emptyBookingState ! 4) = ''10:00''
   \<and> conflicts (mockBookings emptyBookingState ! 4) \<lparr>slot_start = ''10:00'', slot_end = ''10:30''\<rparr>
   \<and> \<not> conflicts (mockBookings emptyBookingState ! 4) \<lparr>slot_start = ''10:30'', slot_end = ''11:00''\<rparr>"
proof -
  have b: "startTime (mockBookings exampleState ! 1) = ''14:00''"
    "endTime (mockBookings exampleState ! 1) = ''15:00''"
    by (simp_all add: exampleState_def initialState_def initialBookings_def)
  have e: "startTime (mockBookings emptyBookingState ! 4) = ''10:00''"
    "endTime (mockBookings emptyBookingState ! 4) = ''10:00''"
    by code_simp+
  have lt: "''14:00'' < ''15:00''" "''14:30'' < ''15:00''" "''15:00'' < ''15:30''"
    "''10:00'' < ''10:30''" "''10:30'' < ''11:00''" by simp_all
  show ?thesis
    using conflicts_half_open[of "mockBookings exampleState ! 1" "\<lparr>slot_start = ''14:30'', slot_end = ''15:00''\<rparr>"]
      conflicts_half_open[of "mockBookings exampleState ! 1" "\<lparr>slot_start = ''15:00'', slot_end = ''15:30''\<rparr>"]
      conflicts_half_open[of "mockBookings emptyBookingState ! 4" "\<lparr>slot_start = ''10:00'', slot_end = ''10:30''\<rparr>"]
      conflicts_half_open[of "mockBookings emptyBookingState ! 4" "\<lparr>slot_start = ''10:30'', slot_end = ''11:00''\<rparr>"]
      b e lt
    by simp
qed

subsection \<open>Cancelling and updating a booking\<close>

lemma findIndex_Some:
  "findIndex P xs = Some i \<Longrightarrow> i < length xs \<and> P (xs ! i) \<and> (\<forall>j<i. \<not> P (xs ! j))"
proof (induction xs arbitrary: i)
  case Nil
  then show ?case by simp
next
  case (Cons x xs)
  show ?case
  proof (cases "P x")
    case True
    then show ?thesis using Cons.prems by simp
  next
    case False
    then obtain k where k: "findIndex P xs = Some k" "i = Suc k"
      using Cons.prems by auto
    show ?thesis using Cons.IH[OF k(1)] False k(2) by (auto simp: less_Suc_eq_0_disj)
  qed
qed

lemma findIndex_None: "findIndex P xs = None \<longleftrightarrow> \<not> list_ex P xs"
  by (induction xs) auto

lemma findIndex_ex: "list_ex P xs \<Longrightarrow> \<exists>i. findIndex P xs = Some i"
  using findIndex_None[of P xs] by auto

text \<open>
  Claim C9. Cancelling an existing booking (the first in the ledger with the given id)
  succeeds and changes nothing but that booking's status, which becomes cancelled, and
  its \<open>updatedAt\<close>: the ledger keeps its length, every other field of the booking and
  every other booking are as before, and so are the providers, services and reviews.
\<close>

theorem cancel_frame:
  assumes "list_ex (\<lambda>b. b_id b = bid) (mockBookings st)"
  shows "\<exists>i < length (mockBookings st).
           b_id (mockBookings st ! i) = bid \<and>
           delete_booking now bid st =
             (Inr (), st\<lparr>mockBookings := (mockBookings st)
                        [i := (mockBookings st ! i)\<lparr>b_status := Cancelled, b_updatedAt := now\<rparr>]\<rparr>) \<and>
           length (mockBookings (snd (delete_booking now bid st))) = length (mockBookings st) \<and>
           mockBookings (snd (delete_booking now bid st)) ! i =
             (mockBookings st ! i)\<lparr>b_status := Cancelled, b_updatedAt := now\<rparr> \<and>
           (\<forall>j. j \<noteq> i \<longrightarrow>
              mockBookings (snd (delete_booking now bid st)) ! j = mockBookings st ! j) \<and>
           mockProviders (snd (delete_booking now bid st)) = mockProviders st \<and>
           mockServices (snd (delete_booking now bid st)) = mockServices st \<and>
           mockReviews (snd (delete_booking now bid st)) = mockReviews st"
proof -
  obtain i where i: "findIndex (\<lambda>b. b_id b = bid) (mockBookings st) = Some i"
    using findIndex_ex[OF assms] by blast
  have "i < length (mockBookings st)" "b_id (mockBookings st ! i) = bid"
    using findIndex_Some[OF i] by simp_all
  then show ?thesis
    by (intro exI[of _ i]) (simp add: delete_booking_def i)
qed

theorem cancel_frame_witness:
  "list_ex (\<lambda>b. b_id b = ''2'') (mockBookings exampleState)
   \<and> map b_status (mockBookings exampleState) = [Completed, Confirmed, Confirmed, Completed, Pending]
   \<and> fst (delete_booking ''t'' ''2'' exampleState) = Inr ()
   \<and> map b_status (mockBookings (snd (delete_booking ''t'' ''2'' exampleState)))
        = [Completed, Cancelled, Confirmed, Completed, Pending]
   \<and> length (mockBookings (snd (delete_booking ''t'' ''2'' exampleState)))
        = length (mockBookings exampleState)
   \<and> mockReviews (snd (delete_booking ''t'' ''2'' exampleState)) = mockReviews exampleState"
proof -
  have e: "list_ex (\<lambda>b. b_id b = ''2'') (mockBookings exampleState)"
    by code_simp
  have s: "map b_status (mockBookings exampleState) = [Completed, Confirmed, Confirmed, Completed, Pending]"
    by code_simp
  have c: "map b_status (mockBookings (snd (delete_booking ''t'' ''2'' exampleState)))
        = [Completed, Cancelled, Confirmed, Completed, Pending]"
    by code_simp
  obtain i where
    "delete_booking ''t'' ''2'' exampleState =
       (Inr (), exampleState\<lparr>mockBookings := (mockBookings exampleState)
           [i := (mockBookings exampleState ! i)\<lparr>b_status := Cancelled, b_updatedAt := ''t''\<rparr>]\<rparr>)"
    "length (mockBookings (snd (delete_booking ''t'' ''2'' exampleState)))
        = length (mockBookings exampleState)"
    "mockReviews (snd (delete_booking ''t'' ''2'' exampleState)) = mockReviews exampleState"
    using cancel_frame[OF e, of "''t''"] by blast
  then show ?thesis using e s c by simp
qed

text \<open>
  Claim C5, as stated, fails: the update handler has no transition table. On the
  initial data, booking 1 is completed, and an update asking for \<open>pending\<close> succeeds
  and stores it.
\<close>

theorem terminal_status_counterexample:
  "b_status (mockBookings exampleState ! 0) = Completed
   \<and> map_sum id b_status
        (fst (put_booking ''t'' ''1'' (no_patch\<lparr>u_status := Some Pending\<rparr>) exampleState))
       = Inr Pending
   \<and> b_status (mockBookings
        (snd (put_booking ''t'' ''1'' (no_patch\<lparr>u_status := Some Pending\<rparr>) exampleState)) ! 0)
       = Pending"
  by code_simp

text \<open>
  Claim C5, amended. The update handler enforces no transition table. An update of an
  existing booking (the first in the ledger with the given id) always succeeds and
  stores the body spread over the booking, so a requested status is stored whatever
  the current status is, also out of cancelled and completed. The only failure is
  \<open>NotFound\<close> for an id that no booking has, and it leaves the data unchanged. The
  transitions pending to confirmed, pending to cancelled, confirmed to cancelled and
  confirmed to completed are exactly the status changes that the provider's calendar
  offers; it offers none for a cancelled or completed booking.
\<close>

theorem update_stores_any_status:
  "(findIndex (\<lambda>b. b_id b = bid) (mockBookings st) = Some i \<longrightarrow>
      put_booking now bid data st =
        (Inr (spread (mockBookings st ! i) data now),
         st\<lparr>mockBookings := (mockBookings st)[i := spread (mockBookings st ! i) data now]\<rparr>)
      \<and> (u_status data = Some s \<longrightarrow> b_status (spread (mockBookings st ! i) data now) = s)
      \<and> (u_status data = None \<longrightarrow>
           b_status (spread (mockBookings st ! i) data now) = b_status (mockBookings st ! i)))
   \<and> (findIndex (\<lambda>b. b_id b = bid) (mockBookings st) = None \<longrightarrow>
        put_booking now bid data st = (Inl NotFound, st))
   \<and> (s \<in> set (offeredStatuses old) \<longleftrightarrow>
        old = Pending \<and> s = Confirmed \<or> old = Pending \<and> s = Cancelled \<or>
        old = Confirmed \<and> s = Cancelled \<or> old = Confirmed \<and> s = Completed)"
proof -
  have "u_status data = Some s \<Longrightarrow> b_status (spread (mockBookings st ! i) data now) = s"
    by (simp add: spread_def)
  moreover have "u_status data = None \<Longrightarrow>
      b_status (spread (mockBookings st ! i) data now) = b_status (mockBookings st ! i)"
    by (simp add: spread_def)
  moreover have "s \<in> set (offeredStatuses old) \<longleftrightarrow>
        old = Pending \<and> s = Confirmed \<or> old = Pending \<and> s = Cancelled \<or>
        old = Confirmed \<and> s = Cancelled \<or> old = Confirmed \<and> s = Completed"
    by (cases old) auto
  ultimately show ?thesis by (simp add: put_booking_def Let_def)
qed

theorem update_stores_any_status_witness:
  "findIndex (\<lambda>b. b_id b = ''4'') (mockBookings exampleState) = Some 3
   \<and> b_status (mockBookings exampleState ! 3) = Completed
   \<and> u_status (no_patch\<lparr>u_status := Some Confirmed\<rparr>) = Some Confirmed
   \<and> b_status (spread (mockBookings exampleState ! 3) (no_patch\<lparr>u_status := Some Confirmed\<rparr>) ''t'')
       = Confirmed
   \<and> findIndex (\<lambda>b. b_id b = ''9'') (mockBookings exampleState) = None
   \<and> put_booking ''t'' ''9'' (no_patch\<lparr>u_status := Some Confirmed\<rparr>) exampleState
       = (Inl NotFound, exampleState)
   \<and> Confirmed \<in> set (offeredStatuses Pending)
   \<and> Confirmed \<notin> set (offeredStatuses Completed)"
proof -
  have f: "findIndex (\<lambda>b. b_id b = ''4'') (mockBookings exampleState) = Some 3" by code_simp
  have g: "findIndex (\<lambda>b. b_id b = ''9'') (mockBookings exampleState) = None" by code_simp
  have c: "b_status (mockBookings exampleState ! 3) = Completed" by code_simp
  have u: "u_status (no_patch\<lparr>u_status := Some Confirmed\<rparr>) = Some Confirmed" by simp
  show ?thesis
    using update_stores_any_status[of "''4''" exampleState 3 "''t''"
            "no_patch\<lparr>u_status := Some Confirmed\<rparr>" Confirmed Pending]
          update_stores_any_status[of "''9''" exampleState 0 "''t''"
            "no_patch\<lparr>u_status := Some Confirmed\<rparr>" Confirmed Completed]
          f g c u
    by simp
qed

subsection \<open>The availability query\<close>

text \<open>
  Claim C6, as stated, fails: a query for a provider id that no provider has is
  answered with an empty list of slots, not with an error.
\<close>

theorem unknown_provider_counterexample:
  "map p_id (mockProviders exampleState) = [''1'', ''2'', ''3'']
   \<and> get_availability exampleDay (Some ''999'') (Some ''2025-06-09'') exampleState = (Inr [], exampleState)"
  by code_simp

text \<open>
  Claim C6, amended. A query with a provider id and a date, for an id that no stored
  provider has, succeeds with the empty list of slots. The only failure of the query
  is the validation error for a missing or empty provider id or date. The query never
  changes the data.
\<close>

theorem availability_query:
  "(truthy providerId \<and> truthy date \<and>
      find (\<lambda>p. p_id p = the providerId) (mockProviders st) = None \<longrightarrow>
        get_availability dayOfWeek providerId date st = (Inr [], st))
   \<and> (fst (get_availability dayOfWeek providerId date st) = Inl e \<longrightarrow>
        e = ValidationError \<and> (\<not> truthy providerId \<or> \<not> truthy date))
   \<and> (truthy providerId \<and> truthy date \<longrightarrow>
        fst (get_availability dayOfWeek providerId date st) =
          Inr (generateAvailableSlots dayOfWeek st (the providerId) (the date)))
   \<and> snd (get_availability dayOfWeek providerId date st) = st"
  by (simp add: get_availability_def generateAvailableSlots_def)

theorem availability_query_witness:
  "truthy (Some ''7'') \<and> truthy (Some ''2025-06-09'')
   \<and> find (\<lambda>p. p_id p = ''7'') (mockProviders exampleState) = None
   \<and> get_availability exampleDay (Some ''7'') (Some ''2025-06-09'') exampleState = (Inr [], exampleState)
   \<and> fst (get_availability exampleDay None (Some ''2025-06-09'') exampleState) = Inl ValidationError
   \<and> \<not> truthy None"
proof -
  have t: "truthy (Some ''7'')" "truthy (Some ''2025-06-09'')" "\<not> truthy None"
    by (simp_all add: truthy_def)
  have f: "find (\<lambda>p. p_id p = the (Some ''7'')) (mockProviders exampleState) = None"
    by code_simp
  have v: "fst (get_availability exampleDay None (Some ''2025-06-09'') exampleState) = Inl ValidationError"
    by (simp add: get_availability_def truthy_def)
  show ?thesis
    using availability_query[where dayOfWeek = exampleDay and providerId = "Some ''7''"
            and date = "Some ''2025-06-09''" and st = exampleState and e = ValidationError]
          availability_query[where dayOfWeek = exampleDay and providerId = None
            and date = "Some ''2025-06-09''" and st = exampleState and e = ValidationError]
          t f v
    by simp
qed

lemma available_slots_iff:
  "s \<in> set (generateAvailableSlots dayOfWeek st providerId date) \<longleftrightarrow>
   (\<exists>provider wd.
      find (\<lambda>p. p_id p = providerId) (mockProviders st) = Some provider \<and>
      map_of (workingHours provider) (dayOfWeek date) = Some wd \<and> isOpen wd \<and>
      s \<in> set (concat (map period_slots (slots wd))) \<and>
      \<not> list_ex (\<lambda>booking. conflicts booking s) (bookedSlots st providerId date))"
proof (cases "find (\<lambda>p. p_id p = providerId) (mockProviders st)")
  case None
  then show ?thesis by (simp add: generateAvailableSlots_def)
next
  case (Some provider)
  note p = this
  show ?thesis
  proof (cases "map_of (workingHours provider) (dayOfWeek date)")
    case None
    then show ?thesis using p by (simp add: generateAvailableSlots_def)
  next
    case (Some wd)
    then show ?thesis using p by (cases "isOpen wd") (simp_all add: generateAvailableSlots_def)
  qed
qed

lemma period_slots_minutes:
  assumes "is_HHmm (slot_start period)" "is_HHmm (slot_end period)"
  shows "period_slots period =
           map (\<lambda>k. slot_at (minute_of_day (slot_start period) + 30 * k))
               [0..<(minute_of_day (slot_end period) - minute_of_day (slot_start period)) div 30]"
proof -
  let ?b = "minute_of_day (slot_start period)" and ?e = "minute_of_day (slot_end period)"
  have ps: "parse_time (slot_start period) = Some (?b div 60, ?b mod 60)"
    and pe: "parse_time (slot_end period) = Some (?e div 60, ?e mod 60)"
    using HHmm_parse[OF assms(1)] HHmm_parse[OF assms(2)] by simp_all
  show ?thesis
    using slot_loop_closed[of "?b mod 60" "?e mod 60" "?b div 60" "?e div 60"]
    by (simp add: period_slots_def ps pe)
qed

text \<open>
  Claim C2, as stated, fails: the availability computation takes a provider and a date
  and no service. With the open interval 09:00 to 10:00 and a service of 45 minutes,
  the start 09:30 is offered (and a booking there is accepted, ending at 10:15); on the
  initial data, with a booking from 15:00 to 16:15, the start 14:30 is offered although
  a 60-minute service booked there runs into that booking. The bookings are matched by
  date text: for the same day written \<open>20250609\<close> all 16 starts are offered, 15:00
  among them.
\<close>

theorem duration_filter_counterexample:
  "exampleDay ''2025-06-09'' = ''1''
   \<and> map duration (mockServices shortDayState) = [45]
   \<and> generateAvailableSlots exampleDay shortDayState ''1'' ''2025-06-09''
       = [\<lparr>slot_start = ''09:00'', slot_end = ''09:30''\<rparr>,
          \<lparr>slot_start = ''09:30'', slot_end = ''10:00''\<rparr>]
   \<and> map_sum id startTime
         (fst (post_booking exampleDay ''t'' (request ''1'' ''1'' ''2025-06-09'' ''09:30'') shortDayState))
       = Inr ''09:30''
   \<and> map_sum id endTime
         (fst (post_booking exampleDay ''t'' (request ''1'' ''1'' ''2025-06-09'' ''09:30'') shortDayState))
       = Inr ''10:15''
   \<and> map startTime (bookedSlots exampleState ''1'' ''2025-06-09'') = [''15:00'']
   \<and> map endTime (bookedSlots exampleState ''1'' ''2025-06-09'') = [''16:15'']
   \<and> map slot_start (generateAvailableSlots exampleDay exampleState ''1'' ''2025-06-09'')
       = [''09:00'', ''09:30'', ''10:00'', ''10:30'', ''11:00'', ''11:30'', ''12:00'',
          ''12:30'', ''13:00'', ''13:30'', ''14:00'', ''14:30'', ''16:30'']
   \<and> exampleDay ''20250609'' = ''1''
   \<and> map slot_start (generateAvailableSlots exampleDay exampleState ''1'' ''20250609'')
       = [''09:00'', ''09:30'', ''10:00'', ''10:30'', ''11:00'', ''11:30'', ''12:00'',
          ''12:30'', ''13:00'', ''13:30'', ''14:00'', ''14:30'', ''15:00'', ''15:30'',
          ''16:00'', ''16:30'']"
  by code_simp

text \<open>
  Claim C2, amended. The computation works on the 30-minute candidate slots alone and
  matches bookings by provider id and by date text. It excludes every candidate whose
  window \<open>[start, end)\<close> overlaps a non-empty occupying booking of that provider that
  is stored under the date text of the query. With working hours written as \<open>HH:mm\<close>,
  every slot it returns is the slot \<open>[t, t + 30)\<close> of a step point of an open interval
  of that day and ends at or before the close of that interval. Every generated slot
  that conflicts with no occupying booking of that provider and date text is
  returned. With the open interval 09:00 to 10:00, both 09:00 and 09:30 are offered.
\<close>

theorem available_slots_filter:
  "(b \<in> set (mockBookings st) \<and> occupying b \<and> b_providerId b = providerId \<and> b_date b = date \<and>
      startTime b < endTime b \<and> slot_start s < slot_end s \<and>
      slot_start s < endTime b \<and> startTime b < slot_end s \<longrightarrow>
        s \<notin> set (generateAvailableSlots dayOfWeek st providerId date))
   \<and> (wellformed_hours st \<and> s \<in> set (generateAvailableSlots dayOfWeek st providerId date) \<longrightarrow>
        (\<exists>provider wd period t.
           find (\<lambda>p. p_id p = providerId) (mockProviders st) = Some provider \<and>
           map_of (workingHours provider) (dayOfWeek date) = Some wd \<and>
           period \<in> set (slots wd) \<and> s = slot_at t \<and>
           minute_of_day (slot_start period) \<le> t \<and> t + 30 \<le> minute_of_day (slot_end period)))
   \<and> (find (\<lambda>p. p_id p = providerId) (mockProviders st) = Some provider \<and>
       map_of (workingHours provider) (dayOfWeek date) = Some wd \<and> isOpen wd \<and>
       period \<in> set (slots wd) \<and> s \<in> set (period_slots period) \<and>
       (\<forall>c \<in> set (mockBookings st).
           occupying c \<and> b_providerId c = providerId \<and> b_date c = date \<longrightarrow> \<not> conflicts c s) \<longrightarrow>
        s \<in> set (generateAvailableSlots dayOfWeek st providerId date))
   \<and> map slot_start (generateAvailableSlots exampleDay shortDayState ''1'' ''2025-06-09'') = [''09:00'', ''09:30'']"
proof -
  have 1: "s \<notin> set (generateAvailableSlots dayOfWeek st providerId date)"
    if b: "b \<in> set (mockBookings st)" "occupying b" "b_providerId b = providerId" "b_date b = date"
      and ne: "startTime b < endTime b" "slot_start s < slot_end s"
      and ov: "slot_start s < endTime b" "startTime b < slot_end s"
  proof -
    have "b \<in> set (bookedSlots st providerId date)"
      using b by (auto simp: bookedSlots_def occupying_def)
    moreover have "conflicts b s"
      unfolding conflicts_def using conflicts_strict[OF ne] ov by simp
    ultimately have "list_ex (\<lambda>booking. conflicts booking s) (bookedSlots st providerId date)"
      by (auto simp: list_ex_iff)
    then show ?thesis by (simp add: available_slots_iff)
  qed
  have 2: "\<exists>provider wd period t.
           find (\<lambda>p. p_id p = providerId) (mockProviders st) = Some provider \<and>
           map_of (workingHours provider) (dayOfWeek date) = Some wd \<and>
           period \<in> set (slots wd) \<and> s = slot_at t \<and>
           minute_of_day (slot_start period) \<le> t \<and> t + 30 \<le> minute_of_day (slot_end period)"
    if wf: "wellformed_hours st" and s: "s \<in> set (generateAvailableSlots dayOfWeek st providerId date)"
  proof -
    obtain provider wd where p: "find (\<lambda>p. p_id p = providerId) (mockProviders st) = Some provider"
      and w: "map_of (workingHours provider) (dayOfWeek date) = Some wd"
      and c: "s \<in> set (concat (map period_slots (slots wd)))"
      using s unfolding available_slots_iff by blast
    obtain period where q: "period \<in> set (slots wd)" "s \<in> set (period_slots period)"
      using c by auto
    have "provider \<in> set (mockProviders st)" using find_SomeD_mem[OF p] by simp
    moreover have "(dayOfWeek date, wd) \<in> set (workingHours provider)" using map_of_SomeD[OF w] .
    ultimately have h: "is_HHmm (slot_start period)" "is_HHmm (slot_end period)"
      using wf q(1) by (fastforce simp: wellformed_hours_def list_all_iff)+
    obtain k where k: "k < (minute_of_day (slot_end period) - minute_of_day (slot_start period)) div 30"
      and sk: "s = slot_at (minute_of_day (slot_start period) + 30 * k)"
      using q(2) unfolding period_slots_minutes[OF h] by auto
    have "minute_of_day (slot_start period) + 30 * k + 30 \<le> minute_of_day (slot_end period)"
      using k step_points[of k "minute_of_day (slot_end period)" "minute_of_day (slot_start period)"]
      by simp
    then show ?thesis using p w q(1) sk by (intro exI[of _ provider] exI[of _ wd] exI[of _ period]
        exI[of _ "minute_of_day (slot_start period) + 30 * k"]) simp
  qed
  have 3: "s \<in> set (generateAvailableSlots dayOfWeek st providerId date)"
    if "find (\<lambda>p. p_id p = providerId) (mockProviders st) = Some provider"
       "map_of (workingHours provider) (dayOfWeek date) = Some wd" "isOpen wd"
       "period \<in> set (slots wd)" "s \<in> set (period_slots period)"
       "\<forall>c \<in> set (mockBookings st).
           occupying c \<and> b_providerId c = providerId \<and> b_date c = date \<longrightarrow> \<not> conflicts c s"
  proof -
    have "\<not> list_ex (\<lambda>booking. conflicts booking s) (bookedSlots st providerId date)"
      using that(6) by (auto simp: list_ex_iff bookedSlots_def occupying_def)
    moreover have "s \<in> set (concat (map period_slots (slots wd)))" using that(4,5) by auto
    ultimately show ?thesis unfolding available_slots_iff using that(1,2,3) by blast
  qed
  have 4: "map slot_start (generateAvailableSlots exampleDay shortDayState ''1'' ''2025-06-09'') = [''09:00'', ''09:30'']"
    by code_simp
  show ?thesis using 1 2 3 4 by blast
qed
theorem available_slots_filter_witness:
  "mockBookings exampleState ! 4 \<in> set (mockBookings exampleState)
   \<and> occupying (mockBookings exampleState ! 4)
   \<and> b_providerId (mockBookings exampleState ! 4) = ''1''
   \<and> b_date (mockBookings exampleState ! 4) = ''2025-06-09''
   \<and> startTime (mockBookings exampleState ! 4) = ''15:00''
   \<and> endTime (mockBookings exampleState ! 4) = ''16:15''
   \<and> ''15:00'' < ''16:15'' \<and> ''15:30'' < ''16:00'' \<and> ''15:30'' < ''16:15'' \<and> ''15:00'' < ''16:00''
   \<and> \<lparr>slot_start = ''15:30'', slot_end = ''16:00''\<rparr>
         \<notin> set (generateAvailableSlots exampleDay exampleState ''1'' ''2025-06-09'')
   \<and> wellformed_hours exampleState
   \<and> find (\<lambda>p. p_id p = ''1'') (mockProviders exampleState) = Some (hd initialProviders)
   \<and> map_of (workingHours (hd initialProviders)) (exampleDay ''2025-06-09'')
        = Some (open_day ''09:00'' ''17:00'')
   \<and> isOpen (open_day ''09:00'' ''17:00'')
   \<and> slot_at 870 \<in> set (period_slots \<lparr>slot_start = ''09:00'', slot_end = ''17:00''\<rparr>)
   \<and> list_all (\<lambda>c. \<not> (occupying c \<and> b_providerId c = ''1'' \<and> b_date c = ''2025-06-09'' \<and>
                          conflicts c (slot_at 870))) (mockBookings exampleState)
   \<and> slot_at 870 \<in> set (generateAvailableSlots exampleDay exampleState ''1'' ''2025-06-09'')
   \<and> slot_at 870 = \<lparr>slot_start = ''14:30'', slot_end = ''15:00''\<rparr>"
proof -
  let ?b = "mockBookings exampleState ! 4"
  let ?s = "\<lparr>slot_start = ''15:30'', slot_end = ''16:00''\<rparr>"
  have b: "?b \<in> set (mockBookings exampleState)" "occupying ?b" "b_providerId ?b = ''1''"
    "b_date ?b = ''2025-06-09''" "startTime ?b = ''15:00''" "endTime ?b = ''16:15''"
    by code_simp+
  have lt: "''15:00'' < ''16:15''" "''15:30'' < ''16:00''" "''15:30'' < ''16:15''" "''15:00'' < ''16:00''"
    by simp_all
  have wf: "wellformed_hours exampleState" by code_simp
  have p: "find (\<lambda>p. p_id p = ''1'') (mockProviders exampleState) = Some (hd initialProviders)"
    by code_simp
  have w: "map_of (workingHours (hd initialProviders)) (exampleDay ''2025-06-09'')
        = Some (open_day ''09:00'' ''17:00'')"
    by code_simp
  have o: "isOpen (open_day ''09:00'' ''17:00'')" by (simp add: open_day_def)
  have q: "\<lparr>slot_start = ''09:00'', slot_end = ''17:00''\<rparr> \<in> set (slots (open_day ''09:00'' ''17:00''))"
    by (simp add: open_day_def)
  have m: "slot_at 870 \<in> set (period_slots \<lparr>slot_start = ''09:00'', slot_end = ''17:00''\<rparr>)"
    by code_simp
  have f: "list_all (\<lambda>c. \<not> (occupying c \<and> b_providerId c = ''1'' \<and> b_date c = ''2025-06-09'' \<and>
                          conflicts c (slot_at 870))) (mockBookings exampleState)"
    by code_simp
  have e: "slot_at 870 = \<lparr>slot_start = ''14:30'', slot_end = ''15:00''\<rparr>" by code_simp
  have out: "?s \<notin> set (generateAvailableSlots exampleDay exampleState ''1'' ''2025-06-09'')"
    using available_slots_filter[where b = ?b and st = exampleState and providerId = "''1''"
            and date = "''2025-06-09''" and s = ?s and dayOfWeek = exampleDay] b lt by simp
  have inn: "slot_at 870 \<in> set (generateAvailableSlots exampleDay exampleState ''1'' ''2025-06-09'')"
    using available_slots_filter[where st = exampleState and providerId = "''1''"
            and date = "''2025-06-09''" and s = "slot_at 870" and dayOfWeek = exampleDay
            and provider = "hd initialProviders" and wd = "open_day ''09:00'' ''17:00''"
            and period = "\<lparr>slot_start = ''09:00'', slot_end = ''17:00''\<rparr>"] p w o q m f
    by (simp add: list_all_iff)
  show ?thesis using b lt wf p w o m f e out inn by simp
qed

subsection \<open>Creating a booking\<close>

text \<open>
  The availability of a date and a booking request for it use the library's answer for
  that date text only: two library functions that agree on it give the same result.
\<close>

lemma available_slots_day_only:
  "dayOfWeek date = dayOfWeek' date \<Longrightarrow>
   generateAvailableSlots dayOfWeek st providerId date =
   generateAvailableSlots dayOfWeek' st providerId date"
proof -
  assume a: "dayOfWeek date = dayOfWeek' date"
  show ?thesis unfolding generateAvailableSlots_def a by (rule refl)
qed

lemma post_booking_day_only:
  "dayOfWeek (the (d_date data)) = dayOfWeek' (the (d_date data)) \<Longrightarrow>
   post_booking dayOfWeek now data st = post_booking dayOfWeek' now data st"
proof -
  assume a: "dayOfWeek (the (d_date data)) = dayOfWeek' (the (d_date data))"
  have "generateAvailableSlots dayOfWeek st (the (d_providerId data)) (the (d_date data)) =
        generateAvailableSlots dayOfWeek' st (the (d_providerId data)) (the (d_date data))"
    using a by (rule available_slots_day_only)
  then show ?thesis unfolding post_booking_def by (simp only:)
qed



lemma post_booking_success:
  assumes "post_booking dayOfWeek now data st = (Inr b, st')"
  shows "\<exists>service slot.
           find (\<lambda>s. s_id s = the (d_serviceId data)) (mockServices st) = Some service \<and>
           truthy (d_customerId data) \<and> truthy (d_providerId data) \<and> truthy (d_serviceId data) \<and>
           truthy (d_date data) \<and> truthy (d_startTime data) \<and>
           slot \<in> set (generateAvailableSlots dayOfWeek st (the (d_providerId data)) (the (d_date data))) \<and>
           slot_start slot = the (d_startTime data) \<and>
           b = \<lparr>b_id = toString (length (mockBookings st) + 1),
                b_customerId = the (d_customerId data),
                b_providerId = the (d_providerId data),
                b_serviceId = the (d_serviceId data),
                b_date = the (d_date data),
                startTime = the (d_startTime data),
                endTime = end_time (the (d_startTime data)) (duration service),
                b_status = Pending,
                totalPrice = price service,
                b_currency = s_currency service,
                b_notes = (if truthy (d_notes data) then d_notes data else None),
                b_createdAt = now,
                b_updatedAt = now\<rparr> \<and>
           st' = st\<lparr>mockBookings := mockBookings st @ [b]\<rparr>"
proof -
  have t: "truthy (d_customerId data)" "truthy (d_providerId data)" "truthy (d_serviceId data)"
    "truthy (d_date data)" "truthy (d_startTime data)"
    using assms by (auto simp: post_booking_def split: if_splits)
  obtain service where s: "find (\<lambda>s. s_id s = the (d_serviceId data)) (mockServices st) = Some service"
    using assms t by (cases "find (\<lambda>s. s_id s = the (d_serviceId data)) (mockServices st)")
      (auto simp: post_booking_def)
  have a: "list_ex (\<lambda>slot. slot_start slot = the (d_startTime data))
             (generateAvailableSlots dayOfWeek st (the (d_providerId data)) (the (d_date data)))"
    using assms t s by (auto simp: post_booking_def Let_def split: if_splits)
  then obtain slot where
    "slot \<in> set (generateAvailableSlots dayOfWeek st (the (d_providerId data)) (the (d_date data)))"
    "slot_start slot = the (d_startTime data)"
    by (auto simp: list_ex_iff)
  moreover have "b = \<lparr>b_id = toString (length (mockBookings st) + 1),
                b_customerId = the (d_customerId data),
                b_providerId = the (d_providerId data),
                b_serviceId = the (d_serviceId data),
                b_date = the (d_date data),
                startTime = the (d_startTime data),
                endTime = end_time (the (d_startTime data)) (duration service),
                b_status = Pending,
                totalPrice = price service,
                b_currency = s_currency service,
                b_notes = (if truthy (d_notes data) then d_notes data else None),
                b_createdAt = now,
                b_updatedAt = now\<rparr> \<and>
           st' = st\<lparr>mockBookings := mockBookings st @ [b]\<rparr>"
    using assms t s a by (auto simp: post_booking_def Let_def split: if_splits)
  ultimately show ?thesis using t s by blast
qed

lemma map_update_same: "f y = f (xs ! i) \<Longrightarrow> map f (xs[i := y]) = map f xs"
proof (cases "i < length xs")
  case True
  assume "f y = f (xs ! i)"
  then have "map f (xs[i := y]) = (map f xs)[i := map f xs ! i]"
    using True by (simp add: map_update)
  then show ?thesis by (simp only: list_update_id)
next
  case False
  then have "length xs \<le> i" by simp
  then have "xs[i := y] = xs" by (rule list_update_beyond)
  then show ?thesis by (simp only:)
qed

lemma post_booking_catalogue:
  "mockServices (snd (post_booking dayOfWeek now data st)) = mockServices st \<and>
   mockProviders (snd (post_booking dayOfWeek now data st)) = mockProviders st"
  by (simp add: post_booking_def Let_def split: option.splits)

lemma put_booking_catalogue:
  "mockServices (snd (put_booking now bid data st)) = mockServices st \<and>
   mockProviders (snd (put_booking now bid data st)) = mockProviders st"
  by (simp add: put_booking_def Let_def split: option.splits)

lemma delete_booking_catalogue:
  "mockServices (snd (delete_booking now bid st)) = mockServices st \<and>
   mockProviders (snd (delete_booking now bid st)) = mockProviders st"
  by (simp add: delete_booking_def split: option.splits)

lemma post_review_catalogue:
  "mockServices (snd (post_review now data st)) = mockServices st \<and>
   map (\<lambda>p. (p_id p, workingHours p)) (mockProviders (snd (post_review now data st))) =
   map (\<lambda>p. (p_id p, workingHours p)) (mockProviders st)"
  by (simp add: post_review_def Let_def map_update_same split: option.splits)

lemma put_review_catalogue:
  "mockServices (snd (put_review now rid data st)) = mockServices st \<and>
   map (\<lambda>p. (p_id p, workingHours p)) (mockProviders (snd (put_review now rid data st))) =
   map (\<lambda>p. (p_id p, workingHours p)) (mockProviders st)"
  by (simp add: put_review_def Let_def map_update_same split: option.splits)

lemma delete_review_catalogue:
  "mockServices (snd (delete_review rid st)) = mockServices st \<and>
   map (\<lambda>p. (p_id p, workingHours p)) (mockProviders (snd (delete_review rid st))) =
   map (\<lambda>p. (p_id p, workingHours p)) (mockProviders st)"
  by (simp add: delete_review_def Let_def map_update_same split: option.splits)

lemma step_same_catalogue: "same_catalogue st \<Longrightarrow> same_catalogue (step dayOfWeek st op)"
  using post_booking_catalogue put_booking_catalogue delete_booking_catalogue
    post_review_catalogue put_review_catalogue delete_review_catalogue
  by (cases op) (simp_all add: same_catalogue_def)

lemma run_same_catalogue: "same_catalogue st \<Longrightarrow> same_catalogue (run dayOfWeek st ops)"
  unfolding run_def by (induction ops arbitrary: st) (simp_all add: step_same_catalogue)

lemma initial_same_catalogue: "same_catalogue (initialState ymd isoString comment2)"
  by (simp add: same_catalogue_def initialState_def)

lemma initial_periods:
  "list_all (\<lambda>p. list_all (\<lambda>kd. list_all (\<lambda>q. is_HHmm (slot_start q) \<and> is_HHmm (slot_end q) \<and>
                                             minute_of_day (slot_end q) \<le> 1320) (slots (snd kd)))
                            (snd p))
     (map (\<lambda>p. (p_id p, workingHours p)) initialProviders)"
  by code_simp


lemma catalogue_period:
  assumes "same_catalogue st" "provider \<in> set (mockProviders st)"
    "(k, wd) \<in> set (workingHours provider)" "period \<in> set (slots wd)"
  shows "is_HHmm (slot_start period) \<and> is_HHmm (slot_end period) \<and>
         minute_of_day (slot_end period) \<le> 1320"
proof -
  have "(p_id provider, workingHours provider) \<in>
          set (map (\<lambda>p. (p_id p, workingHours p)) (mockProviders st))"
    using assms(2) by auto
  then have "(p_id provider, workingHours provider) \<in>
          set (map (\<lambda>p. (p_id p, workingHours p)) initialProviders)"
    using assms(1) by (simp only: same_catalogue_def)
  then show ?thesis
    using initial_periods assms(3,4) unfolding list_all_iff by fastforce
qed

lemma catalogue_wellformed: "same_catalogue st \<Longrightarrow> wellformed_hours st"
  unfolding wellformed_hours_def list_all_iff using catalogue_period by (metis prod.collapse)




subsection \<open>Reviews\<close>

lemma foldl_rating: "foldl (\<lambda>sum review. sum + r_rating review) a rs = a + sum_list (map r_rating rs)"
  by (induction rs arbitrary: a) simp_all

lemma mean_rating_mean_of: "mean_rating rs = mean_of rs"
  by (simp add: mean_rating_def mean_of_def totalRating_def foldl_rating)

lemma findIndex_update:
  assumes "findIndex P xs = Some i" "P y"
  shows "findIndex P (xs[i := y]) = Some i"
  using assms
proof (induction xs arbitrary: i)
  case Nil
  then show ?case by simp
next
  case (Cons x xs)
  show ?case
  proof (cases "P x")
    case True
    then show ?thesis using Cons.prems by simp
  next
    case False
    then obtain k where k: "findIndex P xs = Some k" "i = Suc k"
      using Cons.prems by auto
    show ?thesis using Cons.IH[OF k(1) Cons.prems(2)] False k(2) by simp
  qed
qed

lemma post_review_not_completed:
  assumes "complete_review data"
    "find (\<lambda>b. b_id b = the (v_bookingId data)) (mockBookings st) = Some booking"
    "b_status booking \<noteq> Completed"
  shows "post_review now data st = (Inl BookingNotCompleted, st)"
  using assms by (simp add: post_review_def complete_review_def)

lemma post_review_duplicate:
  assumes "complete_review data"
    "find (\<lambda>b. b_id b = the (v_bookingId data)) (mockBookings st) = Some booking"
    "b_status booking = Completed"
    "find (\<lambda>r. r_bookingId r = the (v_bookingId data)) (mockReviews st) = Some existing"
  shows "post_review now data st = (Inl DuplicateReview, st)"
  using assms by (simp add: post_review_def complete_review_def)

lemma post_review_success:
  assumes "post_review now data st = (Inr r, st')"
  shows "complete_review data \<and>
         (\<exists>booking. find (\<lambda>b. b_id b = the (v_bookingId data)) (mockBookings st) = Some booking \<and>
                    b_status booking = Completed) \<and>
         find (\<lambda>r. r_bookingId r = the (v_bookingId data)) (mockReviews st) = None \<and>
         r_bookingId r = the (v_bookingId data) \<and>
         r_providerId r = the (v_providerId data) \<and>
         mockReviews st' = mockReviews st @ [r] \<and>
         mockBookings st' = mockBookings st \<and>
         mockProviders st' =
           (case findIndex (\<lambda>p. p_id p = r_providerId r) (mockProviders st) of
              None \<Rightarrow> mockProviders st
            | Some i \<Rightarrow> (mockProviders st)
                [i := (mockProviders st ! i)
                   \<lparr>p_rating := mean_rating (providerReviews (mockReviews st @ [r]) (r_providerId r)),
                    reviewCount := length (providerReviews (mockReviews st @ [r]) (r_providerId r))\<rparr>])"
proof -
  have c: "complete_review data"
    using assms by (auto simp: post_review_def complete_review_def split: if_splits)
  obtain booking where b: "find (\<lambda>b. b_id b = the (v_bookingId data)) (mockBookings st) = Some booking"
    using assms c by (cases "find (\<lambda>b. b_id b = the (v_bookingId data)) (mockBookings st)")
      (auto simp: post_review_def complete_review_def)
  have s: "b_status booking = Completed"
    using assms c b by (auto simp: post_review_def complete_review_def split: if_splits)
  have n: "find (\<lambda>r. r_bookingId r = the (v_bookingId data)) (mockReviews st) = None"
    using assms c b s by (cases "find (\<lambda>r. r_bookingId r = the (v_bookingId data)) (mockReviews st)")
      (auto simp: post_review_def complete_review_def)
  show ?thesis
    using assms c b s n
    by (auto simp: post_review_def complete_review_def Let_def split: option.splits)
qed

lemma find_append_last: "find P xs = None \<Longrightarrow> P y \<Longrightarrow> find P (xs @ [y]) = Some y"
  by (induction xs) (auto split: if_splits)

lemma list_ex_find: "list_ex P xs \<Longrightarrow> \<exists>x. find P xs = Some x"
  by (induction xs) auto

text \<open>
  Claim C8. A complete review request for a booking that is not completed fails with
  \<open>BookingNotCompleted\<close>. After a successful review, a second complete request for the
  same booking id fails with \<open>DuplicateReview\<close>, as does any complete request for a
  completed booking that already has a review. After a successful create, the provider
  named in the review (the first with that id) has as rating the mean of the ratings
  of all reviews with that provider id and as review count their number. After a
  successful delete the same holds for the provider of the deleted review, except
  that when no review of that provider is left the rating keeps its previous value
  while the count becomes 0. Ratings are whole numbers and the mean is exact.
\<close>

theorem review_rules:
  "(complete_review data \<and>
      find (\<lambda>b. b_id b = the (v_bookingId data)) (mockBookings st) = Some booking \<and>
      b_status booking \<noteq> Completed \<longrightarrow>
        post_review now data st = (Inl BookingNotCompleted, st))
   \<and> (post_review now data st = (Inr r, st') \<and> complete_review data2 \<and>
       v_bookingId data2 = v_bookingId data \<longrightarrow>
        post_review now2 data2 st' = (Inl DuplicateReview, st'))
   \<and> (complete_review data \<and>
       find (\<lambda>b. b_id b = the (v_bookingId data)) (mockBookings st) = Some booking \<and>
       b_status booking = Completed \<and>
       list_ex (\<lambda>r. r_bookingId r = the (v_bookingId data)) (mockReviews st) \<longrightarrow>
        post_review now data st = (Inl DuplicateReview, st))
   \<and> (post_review now data st = (Inr r, st') \<and>
       findIndex (\<lambda>p. p_id p = r_providerId r) (mockProviders st) = Some i \<longrightarrow>
        findIndex (\<lambda>p. p_id p = r_providerId r) (mockProviders st') = Some i \<and>
        p_rating (mockProviders st' ! i) =
          mean_of (providerReviews (mockReviews st') (r_providerId r)) \<and>
        reviewCount (mockProviders st' ! i) =
          length (providerReviews (mockReviews st') (r_providerId r)))
   \<and> (delete_review rid st = (Inr (), st') \<and>
       findIndex (\<lambda>r. r_id r = rid) (mockReviews st) = Some j \<and>
       findIndex (\<lambda>p. p_id p = r_providerId (mockReviews st ! j)) (mockProviders st) = Some i \<longrightarrow>
        mockReviews st' = take j (mockReviews st) @ drop (Suc j) (mockReviews st) \<and>
        findIndex (\<lambda>p. p_id p = r_providerId (mockReviews st ! j)) (mockProviders st') = Some i \<and>
        reviewCount (mockProviders st' ! i) =
          length (providerReviews (mockReviews st') (r_providerId (mockReviews st ! j))) \<and>
        (providerReviews (mockReviews st') (r_providerId (mockReviews st ! j)) \<noteq> [] \<longrightarrow>
           p_rating (mockProviders st' ! i) =
             mean_of (providerReviews (mockReviews st') (r_providerId (mockReviews st ! j)))) \<and>
        (providerReviews (mockReviews st') (r_providerId (mockReviews st ! j)) = [] \<longrightarrow>
           p_rating (mockProviders st' ! i) = p_rating (mockProviders st ! i) \<and>
           reviewCount (mockProviders st' ! i) = 0))"
proof -
  have 1: "post_review now data st = (Inl BookingNotCompleted, st)"
    if "complete_review data"
      "find (\<lambda>b. b_id b = the (v_bookingId data)) (mockBookings st) = Some booking"
      "b_status booking \<noteq> Completed"
    using post_review_not_completed[OF that] .
  have 2: "post_review now2 data2 st' = (Inl DuplicateReview, st')"
    if ok: "post_review now data st = (Inr r, st')" and c2: "complete_review data2"
      and same: "v_bookingId data2 = v_bookingId data"
  proof -
    note s = post_review_success[OF ok]
    obtain bk where bk: "find (\<lambda>b. b_id b = the (v_bookingId data)) (mockBookings st) = Some bk"
      "b_status bk = Completed"
      using s by blast
    have "find (\<lambda>x. r_bookingId x = the (v_bookingId data)) (mockReviews st @ [r]) = Some r"
      using s by (intro find_append_last) simp_all
    then show ?thesis
      using post_review_duplicate[of data2 st' bk r now2] c2 bk s by (simp add: same)
  qed
  have 3: "post_review now data st = (Inl DuplicateReview, st)"
    if "complete_review data"
      "find (\<lambda>b. b_id b = the (v_bookingId data)) (mockBookings st) = Some booking"
      "b_status booking = Completed"
      "list_ex (\<lambda>r. r_bookingId r = the (v_bookingId data)) (mockReviews st)"
    using post_review_duplicate[OF that(1,2,3)] list_ex_find[OF that(4)] by blast
  have 4: "findIndex (\<lambda>p. p_id p = r_providerId r) (mockProviders st') = Some i \<and>
        p_rating (mockProviders st' ! i) =
          mean_of (providerReviews (mockReviews st') (r_providerId r)) \<and>
        reviewCount (mockProviders st' ! i) =
          length (providerReviews (mockReviews st') (r_providerId r))"
    if ok: "post_review now data st = (Inr r, st')"
      and i: "findIndex (\<lambda>p. p_id p = r_providerId r) (mockProviders st) = Some i"
  proof -
    note s = post_review_success[OF ok]
    let ?rs = "providerReviews (mockReviews st @ [r]) (r_providerId r)"
    let ?p = "(mockProviders st ! i)\<lparr>p_rating := mean_rating ?rs, reviewCount := length ?rs\<rparr>"
    have p: "mockProviders st' = (mockProviders st)[i := ?p]" using s i by simp
    have l: "i < length (mockProviders st)" "p_id (mockProviders st ! i) = r_providerId r"
      using findIndex_Some[OF i] by simp_all
    have "findIndex (\<lambda>p. p_id p = r_providerId r) ((mockProviders st)[i := ?p]) = Some i"
      using l(2) by (intro findIndex_update[OF i]) simp
    moreover have "mockProviders st' ! i = ?p" using p l(1) by simp
    moreover have "mockReviews st' = mockReviews st @ [r]" using s by simp
    ultimately show ?thesis using p by (simp add: mean_rating_mean_of)
  qed
  have 5: "mockReviews st' = take j (mockReviews st) @ drop (Suc j) (mockReviews st) \<and>
        findIndex (\<lambda>p. p_id p = r_providerId (mockReviews st ! j)) (mockProviders st') = Some i \<and>
        reviewCount (mockProviders st' ! i) =
          length (providerReviews (mockReviews st') (r_providerId (mockReviews st ! j))) \<and>
        (providerReviews (mockReviews st') (r_providerId (mockReviews st ! j)) \<noteq> [] \<longrightarrow>
           p_rating (mockProviders st' ! i) =
             mean_of (providerReviews (mockReviews st') (r_providerId (mockReviews st ! j)))) \<and>
        (providerReviews (mockReviews st') (r_providerId (mockReviews st ! j)) = [] \<longrightarrow>
           p_rating (mockProviders st' ! i) = p_rating (mockProviders st ! i) \<and>
           reviewCount (mockProviders st' ! i) = 0)"
    if ok: "delete_review rid st = (Inr (), st')"
      and j: "findIndex (\<lambda>r. r_id r = rid) (mockReviews st) = Some j"
      and i: "findIndex (\<lambda>p. p_id p = r_providerId (mockReviews st ! j)) (mockProviders st) = Some i"
  proof -
    let ?pid = "r_providerId (mockReviews st ! j)"
    let ?reviews = "take j (mockReviews st) @ drop (Suc j) (mockReviews st)"
    let ?rs = "providerReviews ?reviews ?pid"
    let ?p = "(mockProviders st ! i)
                \<lparr>p_rating := (if length ?rs > 0 then mean_rating ?rs
                               else p_rating (mockProviders st ! i)),
                 reviewCount := length ?rs\<rparr>"
    have st': "st' = st\<lparr>mockReviews := ?reviews, mockProviders := (mockProviders st)[i := ?p]\<rparr>"
      using ok j i by (simp add: delete_review_def Let_def)
    have l: "i < length (mockProviders st)" "p_id (mockProviders st ! i) = ?pid"
      using findIndex_Some[OF i] by simp_all
    have "findIndex (\<lambda>p. p_id p = ?pid) ((mockProviders st)[i := ?p]) = Some i"
      using l(2) by (intro findIndex_update[OF i]) simp
    then have fi: "findIndex (\<lambda>p. p_id p = ?pid) (mockProviders st') = Some i"
      by (simp add: st')
    have pi: "mockProviders st' ! i = ?p" using l(1) by (simp add: st')
    have rv: "mockReviews st' = ?reviews" by (simp add: st')
    have a: "reviewCount (mockProviders st' ! i) = length ?rs" by (simp add: pi)
    have b: "?rs \<noteq> [] \<Longrightarrow> p_rating (mockProviders st' ! i) = mean_of ?rs"
      by (simp add: pi mean_rating_mean_of)
    have c: "?rs = [] \<Longrightarrow> p_rating (mockProviders st' ! i) = p_rating (mockProviders st ! i) \<and>
                reviewCount (mockProviders st' ! i) = 0"
      by (simp add: pi)
    show ?thesis unfolding rv using fi a b c by blast
  qed
  show ?thesis using 1 2 3 4 5 by blast
qed

theorem review_rules_witness:
  "complete_review (reviewRequest ''5'' ''1'' ''2'' 4)
   \<and> find (\<lambda>b. b_id b = ''5'') (mockBookings exampleState) = Some (mockBookings exampleState ! 4)
   \<and> b_status (mockBookings exampleState ! 4) = Pending
   \<and> post_review ''t'' (reviewRequest ''5'' ''1'' ''2'' 4) exampleState
        = (Inl BookingNotCompleted, exampleState)
   \<and> post_review ''t2'' (reviewRequest ''2'' ''2'' ''6'' 3) completedState
        = (Inr (last (mockReviews reviewedState)), reviewedState)
   \<and> complete_review (reviewRequest ''2'' ''2'' ''6'' 5)
   \<and> post_review ''t3'' (reviewRequest ''2'' ''2'' ''6'' 5) reviewedState
        = (Inl DuplicateReview, reviewedState)
   \<and> findIndex (\<lambda>p. p_id p = ''2'') (mockProviders completedState) = Some 1
   \<and> p_rating (mockProviders completedState ! 1) = 49 / 10
   \<and> reviewCount (mockProviders completedState ! 1) = 89
   \<and> p_rating (mockProviders reviewedState ! 1) = 3
   \<and> reviewCount (mockProviders reviewedState ! 1) = 1
   \<and> map r_rating (providerReviews (mockReviews reviewedState) ''2'') = [3]
   \<and> delete_review ''1'' exampleState = (Inr (), snd (delete_review ''1'' exampleState))
   \<and> findIndex (\<lambda>r. r_id r = ''1'') (mockReviews exampleState) = Some 0
   \<and> findIndex (\<lambda>p. p_id p = ''1'') (mockProviders exampleState) = Some 0
   \<and> providerReviews (mockReviews (snd (delete_review ''1'' exampleState))) ''1'' = []
   \<and> p_rating (mockProviders exampleState ! 0) = 24 / 5
   \<and> p_rating (mockProviders (snd (delete_review ''1'' exampleState)) ! 0) = 24 / 5
   \<and> reviewCount (mockProviders (snd (delete_review ''1'' exampleState)) ! 0) = 0"
proof -
  let ?a = "reviewRequest ''5'' ''1'' ''2'' 4"
  let ?b = "reviewRequest ''2'' ''2'' ''6'' 3"
  let ?c = "reviewRequest ''2'' ''2'' ''6'' 5"
  let ?r = "last (mockReviews reviewedState)"
  let ?d = "snd (delete_review ''1'' exampleState)"
  have a1: "complete_review ?a" by code_simp
  have a2: "find (\<lambda>b. b_id b = the (v_bookingId ?a)) (mockBookings exampleState)
              = Some (mockBookings exampleState ! 4)" by code_simp
  have a2': "find (\<lambda>b. b_id b = ''5'') (mockBookings exampleState)
              = Some (mockBookings exampleState ! 4)" by code_simp
  have a3: "b_status (mockBookings exampleState ! 4) = Pending" by code_simp
  have b1: "post_review ''t2'' ?b completedState = (Inr ?r, reviewedState)" by code_simp
  have c1: "complete_review ?c" by code_simp
  have c2: "v_bookingId ?c = v_bookingId ?b" by (simp add: reviewRequest_def)
  have p1: "findIndex (\<lambda>p. p_id p = r_providerId ?r) (mockProviders completedState) = Some 1"
    by code_simp
  have p1': "findIndex (\<lambda>p. p_id p = ''2'') (mockProviders completedState) = Some 1"
    by code_simp
  have p2: "p_rating (mockProviders completedState ! 1) = 49 / 10"
    "reviewCount (mockProviders completedState ! 1) = 89" by code_simp+
  have p3: "providerReviews (mockReviews reviewedState) (r_providerId ?r) = [?r]"
    "r_rating ?r = 3" "r_providerId ?r = ''2''" by code_simp+
  have d1: "delete_review ''1'' exampleState = (Inr (), ?d)" by code_simp
  have d2: "findIndex (\<lambda>r. r_id r = ''1'') (mockReviews exampleState) = Some 0" by code_simp
  have d3: "findIndex (\<lambda>p. p_id p = r_providerId (mockReviews exampleState ! 0))
              (mockProviders exampleState) = Some 0" by code_simp
  have d3': "findIndex (\<lambda>p. p_id p = ''1'') (mockProviders exampleState) = Some 0" by code_simp
  have d4: "providerReviews (mockReviews ?d) (r_providerId (mockReviews exampleState ! 0)) = []"
    "r_providerId (mockReviews exampleState ! 0) = ''1''"
    by code_simp+
  have d5: "p_rating (mockProviders exampleState ! 0) = 24 / 5" by code_simp
  note R1 = review_rules[of ?a exampleState "mockBookings exampleState ! 4" "''t''"]
  note R2 = review_rules[of ?b completedState _ "''t2''" ?r reviewedState ?c "''t3''" 1]
  note R3 = review_rules[of _ exampleState _ _ _ ?d _ _ 0 "''1''" 0]
  have e1: "post_review ''t'' ?a exampleState = (Inl BookingNotCompleted, exampleState)"
    using R1 a1 a2 a3 by simp
  have e2: "post_review ''t3'' ?c reviewedState = (Inl DuplicateReview, reviewedState)"
    using R2 b1 c1 c2 by blast
  have e3: "p_rating (mockProviders reviewedState ! 1) = mean_of [?r]"
    "reviewCount (mockProviders reviewedState ! 1) = 1"
    using R2 b1 p1 p3(1) by simp_all
  have e4: "p_rating (mockProviders reviewedState ! 1) = 3"
    using e3(1) p3(2) by (simp add: mean_of_def)
  have e5: "p_rating (mockProviders ?d ! 0) = p_rating (mockProviders exampleState ! 0)"
    "reviewCount (mockProviders ?d ! 0) = 0"
    using R3 d1 d2 d3 d4(1) by simp_all
  show ?thesis
    using a1 a2' a3 e1 b1 c1 e2 p1' p2 e4 e3(2) p3 d1 d2 d3' d4 d5 e5 by simp
qed

subsection \<open>Double booking\<close>

lemma no_clash_append:
  "no_clash R (bs @ [n]) = (no_clash R bs \<and> list_all (\<lambda>b. \<not> (rivals b n \<and> R b n)) bs)"
  by (induction bs) auto

lemma list_all_update: "list_all P xs \<Longrightarrow> P c \<Longrightarrow> list_all P (xs[k := c])"
  unfolding list_all_iff using set_update_subset_insert[of xs k c] by auto

lemma no_clash_retire:
  "no_clash R bs \<Longrightarrow> \<not> occupying c \<Longrightarrow> no_clash R (bs[i := c])"
proof (induction bs arbitrary: i)
  case Nil
  then show ?case by simp
next
  case (Cons b bs)
  show ?case
  proof (cases i)
    case 0
    then show ?thesis using Cons.prems by (simp add: rivals_def list_all_iff)
  next
    case (Suc k)
    have "list_all (\<lambda>x. \<not> (rivals b x \<and> R b x)) (bs[k := c])"
      using Cons.prems by (intro list_all_update) (simp_all add: rivals_def)
    then show ?thesis using Cons.IH[of k] Cons.prems Suc by simp
  qed
qed

lemma delete_booking_no_clash:
  "no_clash R (mockBookings st) \<Longrightarrow> no_clash R (mockBookings (snd (delete_booking now bid st)))"
  by (auto simp: delete_booking_def occupying_def split: option.splits intro!: no_clash_retire)

lemma post_review_bookings: "mockBookings (snd (post_review now data st)) = mockBookings st"
  by (simp add: post_review_def Let_def split: option.splits)

lemma put_review_bookings: "mockBookings (snd (put_review now rid data st)) = mockBookings st"
  by (simp add: put_review_def Let_def split: option.splits)

lemma delete_review_bookings: "mockBookings (snd (delete_review rid st)) = mockBookings st"
  by (simp add: delete_review_def Let_def split: option.splits)

lemma post_booking_starts_outside:
  assumes "no_clash starts_inside (mockBookings st)"
  shows "no_clash starts_inside (mockBookings (snd (post_booking dayOfWeek now data st)))"
proof (cases "fst (post_booking dayOfWeek now data st)")
  case (Inl e)
  then have "snd (post_booking dayOfWeek now data st) = st"
    by (auto simp: post_booking_def Let_def split: if_splits option.splits)
  then show ?thesis using assms by simp
next
  case (Inr n)
  then have r: "post_booking dayOfWeek now data st = (Inr n, snd (post_booking dayOfWeek now data st))"
    by (metis prod.collapse)
  obtain service slot where
    a: "slot \<in> set (generateAvailableSlots dayOfWeek st (the (d_providerId data)) (the (d_date data)))"
      "slot_start slot = the (d_startTime data)"
    and n: "b_providerId n = the (d_providerId data)" "b_date n = the (d_date data)"
      "startTime n = the (d_startTime data)"
    and st': "snd (post_booking dayOfWeek now data st) = st\<lparr>mockBookings := mockBookings st @ [n]\<rparr>"
    using post_booking_success[OF r] by force
  have free: "\<not> list_ex (\<lambda>booking. conflicts booking slot)
                 (bookedSlots st (the (d_providerId data)) (the (d_date data)))"
    using a(1) unfolding available_slots_iff by blast
  have "\<not> (rivals b n \<and> starts_inside b n)" if b: "b \<in> set (mockBookings st)" for b
  proof
    assume c: "rivals b n \<and> starts_inside b n"
    then have "b \<in> set (bookedSlots st (the (d_providerId data)) (the (d_date data)))"
      using b n by (auto simp: bookedSlots_def rivals_def occupying_def)
    then have "\<not> conflicts b slot" using free by (auto simp: list_ex_iff)
    moreover have "conflicts b slot"
      using c a(2) n(3) by (simp add: conflicts_def starts_inside_def)
    ultimately show False by simp
  qed
  then show ?thesis using assms by (simp add: st' no_clash_append list_all_iff)
qed

lemma initial_starts_outside: "no_clash starts_inside (initialBookings ymd isoString)"
  by (simp add: initialBookings_def rivals_def occupying_def starts_inside_def)

lemma no_clash_replace:
  assumes "no_clash R bs" "i < length bs"
    and "\<And>x. rivals c x = rivals (bs ! i) x" "\<And>x. rivals x c = rivals x (bs ! i)"
    and "\<And>x. R c x = R (bs ! i) x" "\<And>x. R x c = R x (bs ! i)"
  shows "no_clash R (bs[i := c])"
  using assms
proof (induction bs arbitrary: i)
  case Nil
  then show ?case by simp
next
  case (Cons b bs)
  show ?case
  proof (cases i)
    case 0
    then show ?thesis using Cons.prems by simp
  next
    case (Suc k)
    have k: "k < length bs" using Cons.prems(2) Suc by simp
    have "list_all (\<lambda>x. \<not> (rivals b x \<and> R b x)) bs" using Cons.prems(1) by simp
    then have "\<not> (rivals b (bs ! k) \<and> R b (bs ! k))" using k by (simp add: list_all_iff)
    then have "\<not> (rivals b c \<and> R b c)" using Cons.prems(4,6) Suc by simp
    then have "list_all (\<lambda>x. \<not> (rivals b x \<and> R b x)) (bs[k := c])"
      using Cons.prems(1) by (intro list_all_update) simp_all
    moreover have "no_clash R (bs[k := c])"
      using Cons.IH[of k] Cons.prems k Suc by simp
    ultimately show ?thesis using Suc by simp
  qed
qed

lemma spread_status:
  "spread old (no_patch\<lparr>u_status := Some s\<rparr>) now = old\<lparr>b_status := s, b_updatedAt := now\<rparr>"
  by (simp add: spread_def no_patch_def)

lemma offered_from_occupying: "s \<in> set (offeredStatuses old) \<Longrightarrow> old = Pending \<or> old = Confirmed"
  by (cases old) simp_all

lemma put_booking_offered_no_clash:
  assumes "no_clash R (mockBookings st)"
    and "permitted st (UpdateBooking now bid data)"
    and "\<And>b c s t. R (b\<lparr>b_status := s, b_updatedAt := t\<rparr>) c = R b c"
    and "\<And>b c s t. R c (b\<lparr>b_status := s, b_updatedAt := t\<rparr>) = R c b"
  shows "no_clash R (mockBookings (snd (put_booking now bid data st)))"
proof (cases "findIndex (\<lambda>b. b_id b = bid) (mockBookings st)")
  case None
  then show ?thesis using assms(1) by (simp add: put_booking_def)
next
  case (Some i)
  let ?old = "mockBookings st ! i"
  obtain s where s: "s \<in> set (offeredStatuses (b_status ?old))"
    "data = no_patch\<lparr>u_status := Some s\<rparr>"
    using assms(2) Some by (auto simp: list_ex_iff)
  let ?new = "?old\<lparr>b_status := s, b_updatedAt := now\<rparr>"
  have st': "mockBookings (snd (put_booking now bid data st)) = (mockBookings st)[i := ?new]"
    using Some s(2) by (simp add: put_booking_def Let_def spread_status)
  have i: "i < length (mockBookings st)" using findIndex_Some[OF Some] by simp
  have occ: "occupying ?old" using offered_from_occupying[OF s(1)] by (auto simp: occupying_def)
  show ?thesis
  proof (cases "occupying ?new")
    case False
    then show ?thesis unfolding st' using assms(1) by (intro no_clash_retire)
  next
    case True
    have "rivals ?new x = rivals ?old x" "rivals x ?new = rivals x ?old" for x
      using occ True by (simp_all add: rivals_def)
    then show ?thesis
      unfolding st' using assms(1) i assms(3,4) by (intro no_clash_replace) simp_all
  qed
qed

lemma step_starts_outside:
  "no_clash starts_inside (mockBookings st) \<Longrightarrow> permitted st op \<Longrightarrow>
   no_clash starts_inside (mockBookings (step dayOfWeek st op))"
proof (cases op)
  case (UpdateBooking now bid data)
  assume "no_clash starts_inside (mockBookings st)" "permitted st op"
  then show ?thesis
    unfolding UpdateBooking step.simps
    by (intro put_booking_offered_no_clash) (simp_all add: starts_inside_def)
qed (simp_all add: post_booking_starts_outside delete_booking_no_clash post_review_bookings
        put_review_bookings delete_review_bookings)

lemma run_starts_outside:
  "no_clash starts_inside (mockBookings st) \<Longrightarrow> permitted_run dayOfWeek st ops \<Longrightarrow>
   no_clash starts_inside (mockBookings (run dayOfWeek st ops))"
  unfolding run_def by (induction ops arbitrary: st) (simp_all add: step_starts_outside)

lemma step_no_overlap:
  "no_clash overlap (mockBookings st) \<Longrightarrow> permitted st op \<Longrightarrow> \<not> is_create op \<Longrightarrow>
   no_clash overlap (mockBookings (step dayOfWeek st op))"
proof (cases op)
  case (UpdateBooking now bid data)
  assume "no_clash overlap (mockBookings st)" "permitted st op"
  then show ?thesis
    unfolding UpdateBooking step.simps
    by (intro put_booking_offered_no_clash) (simp_all add: overlap_def)
qed (simp_all add: delete_booking_no_clash post_review_bookings
        put_review_bookings delete_review_bookings)

text \<open>
  Claim C1, as stated, fails. On the initial data, a 60-minute booking at 10:00 and
  then a 60-minute booking at 09:30 for the same provider and day are both accepted:
  the check looks at the 30-minute slot from 09:30 to 10:00 only. The two pending
  bookings, 10:00 to 11:00 and 09:30 to 10:30, overlap. Moreover the check compares
  date texts: booking 5 is pending from 15:00 to 16:15 on \<open>2025-06-09\<close>, and a request
  for 15:00 on the same day written \<open>20250609\<close> is accepted.
\<close>

theorem double_booking_counterexample:
  "no_double_booking (mockBookings exampleState)
   \<and> map b_providerId (drop 5 (mockBookings (run exampleDay exampleState twoRequests))) = [''1'', ''1'']
   \<and> map b_date (drop 5 (mockBookings (run exampleDay exampleState twoRequests)))
       = [''2025-06-16'', ''2025-06-16'']
   \<and> map startTime (drop 5 (mockBookings (run exampleDay exampleState twoRequests))) = [''10:00'', ''09:30'']
   \<and> map endTime (drop 5 (mockBookings (run exampleDay exampleState twoRequests))) = [''11:00'', ''10:30'']
   \<and> map b_status (drop 5 (mockBookings (run exampleDay exampleState twoRequests))) = [Pending, Pending]
   \<and> \<not> no_double_booking (mockBookings (run exampleDay exampleState twoRequests))
   \<and> exampleDay ''2025-06-09'' = ''1'' \<and> exampleDay ''20250609'' = ''1''
   \<and> b_providerId (mockBookings exampleState ! 4) = ''1''
   \<and> b_date (mockBookings exampleState ! 4) = ''2025-06-09''
   \<and> startTime (mockBookings exampleState ! 4) = ''15:00''
   \<and> endTime (mockBookings exampleState ! 4) = ''16:15''
   \<and> b_status (mockBookings exampleState ! 4) = Pending
   \<and> map_sum id b_date
         (fst (post_booking exampleDay ''t3'' (request ''1'' ''1'' ''20250609'' ''15:00'') exampleState))
       = Inr ''20250609''
   \<and> map_sum id startTime
         (fst (post_booking exampleDay ''t3'' (request ''1'' ''1'' ''20250609'' ''15:00'') exampleState))
       = Inr ''15:00''
   \<and> map_sum id endTime
         (fst (post_booking exampleDay ''t3'' (request ''1'' ''1'' ''20250609'' ''15:00'') exampleState))
       = Inr ''16:00''
   \<and> map_sum id b_status
         (fst (post_booking exampleDay ''t3'' (request ''1'' ''1'' ''20250609'' ''15:00'') exampleState))
       = Inr Pending"
  by code_simp

text \<open>
  Claim C1, amended. Dates are date texts, compared as the handlers compare them.
  Cancelling a booking, the review operations and the status changes that the
  provider's calendar offers (pending to confirmed or cancelled, confirmed to
  completed or cancelled) keep the occupying bookings of every provider and date text
  pairwise non-overlapping. In every state reached from the initial data by booking
  creations, cancellations, review operations and such status changes, no occupying
  booking starts inside the window \<open>[startTime, endTime)\<close> of an occupying booking
  with the same provider and the same date text that precedes it in the ledger. Other
  booking updates are excluded: the handler stores the request body without any
  check.
\<close>

theorem ledger_invariants:
  "(no_double_booking (mockBookings st) \<and> permitted st op \<and> \<not> is_create op \<longrightarrow>
      no_double_booking (mockBookings (step dayOfWeek st op)))
   \<and> (permitted_run dayOfWeek (initialState ymd isoString comment2) ops \<longrightarrow>
        no_start_inside_earlier (mockBookings (run dayOfWeek (initialState ymd isoString comment2) ops)))"
proof -
  have "no_clash starts_inside (mockBookings (initialState ymd isoString comment2))"
    using initial_starts_outside by (simp add: initialState_def)
  then show ?thesis
    unfolding no_double_booking_def no_start_inside_earlier_def
    using step_no_overlap run_starts_outside by blast
qed

theorem ledger_invariants_witness:
  "no_double_booking (mockBookings exampleState)
   \<and> permitted exampleState (UpdateBooking ''t'' ''5'' (no_patch\<lparr>u_status := Some Confirmed\<rparr>))
   \<and> \<not> is_create (UpdateBooking ''t'' ''5'' (no_patch\<lparr>u_status := Some Confirmed\<rparr>))
   \<and> no_double_booking (mockBookings
        (step exampleDay exampleState (UpdateBooking ''t'' ''5'' (no_patch\<lparr>u_status := Some Confirmed\<rparr>))))
   \<and> permitted_run exampleDay exampleState
        (twoRequests @ [UpdateBooking ''t3'' ''6'' (no_patch\<lparr>u_status := Some Confirmed\<rparr>),
                        CancelBooking ''t4'' ''5''])
   \<and> no_start_inside_earlier (mockBookings (run exampleDay exampleState
        (twoRequests @ [UpdateBooking ''t3'' ''6'' (no_patch\<lparr>u_status := Some Confirmed\<rparr>),
                        CancelBooking ''t4'' ''5''])))
   \<and> map b_status (mockBookings (run exampleDay exampleState
        (twoRequests @ [UpdateBooking ''t3'' ''6'' (no_patch\<lparr>u_status := Some Confirmed\<rparr>),
                        CancelBooking ''t4'' ''5''])))
       = [Completed, Confirmed, Confirmed, Completed, Cancelled, Confirmed, Pending]"
proof -
  let ?u = "UpdateBooking ''t'' ''5'' (no_patch\<lparr>u_status := Some Confirmed\<rparr>)"
  let ?ops = "twoRequests @ [UpdateBooking ''t3'' ''6'' (no_patch\<lparr>u_status := Some Confirmed\<rparr>),
                        CancelBooking ''t4'' ''5'']"
  have i: "no_double_booking (mockBookings exampleState)" by code_simp
  have p: "permitted exampleState ?u" by code_simp
  have c: "\<not> is_create ?u" by simp
  have r: "permitted_run exampleDay exampleState ?ops" by code_simp
  have l: "map b_status (mockBookings (run exampleDay exampleState ?ops))
       = [Completed, Confirmed, Confirmed, Completed, Cancelled, Confirmed, Pending]" by code_simp
  show ?thesis
    using ledger_invariants[where st = exampleState and op = ?u and dayOfWeek = exampleDay
            and ymd = exampleYmd and isoString = exampleIso
            and ?comment2.0 = "''good service''" and ops = ?ops]
      i p c r l
    unfolding exampleState_def[symmetric]
    by simp
qed

subsection \<open>Times of day in the filter\<close>

lemma HHmm_length: "is_HHmm a \<Longrightarrow> length a = 5"
  by (auto simp: is_HHmm_def split: list.splits)

lemma HHmm_clock:
  assumes "is_HHmm a"
  shows "minute_of_day a < 1440 \<and> clock (minute_of_day a) = a"
proof -
  have d: "minute_of_day a div 60 < 24" using HHmm_parse[OF assms] by simp
  then have l: "minute_of_day a < 1440" by (simp add: div_less_iff_less_mult)
  have "is_HHmm (clock (minute_of_day a))"
    "minute_of_day (clock (minute_of_day a)) = minute_of_day a"
    using clock_HHmm[OF l] by simp_all
  then have "clock (minute_of_day a) = a" using HHmm_inj[OF _ assms] by simp
  then show ?thesis using l by simp
qed

lemma period_slots_times:
  assumes "is_HHmm (slot_start period)" "is_HHmm (slot_end period)"
  shows "map (\<lambda>s. (minute_of_day (slot_start s), minute_of_day (slot_end s))) (period_slots period) =
         map (\<lambda>k. (minute_of_day (slot_start period) + 30 * k,
                    minute_of_day (slot_start period) + 30 * k + 30))
             [0..<(minute_of_day (slot_end period) - minute_of_day (slot_start period)) div 30]"
proof -
  let ?b = "minute_of_day (slot_start period)" and ?e = "minute_of_day (slot_end period)"
  have e: "?e < 1440" using HHmm_clock[OF assms(2)] by simp
  have "minute_of_day (slot_start (slot_at (?b + 30 * k))) = ?b + 30 * k \<and>
        minute_of_day (slot_end (slot_at (?b + 30 * k))) = ?b + 30 * k + 30"
    if "k < (?e - ?b) div 30" for k
  proof -
    have "?b + 30 * k + 30 \<le> ?e" using that step_points[of k ?e ?b] by simp
    then have "?b + 30 * k < 1440" "?b + 30 * k + 30 < 1440" using e by simp_all
    then show ?thesis using clock_HHmm by (simp add: slot_at_def)
  qed
  then show ?thesis unfolding period_slots_minutes[OF assms] by simp
qed

text \<open>
  Claim C10. For a working period written as \<open>HH:mm\<close> times, every start and end that
  the loop emits is a zero-padded five-character \<open>HH:mm\<close> text, and the \<open>k\<close>-th slot
  emitted encodes the minutes \<open>start + 30 * k\<close> and \<open>start + 30 * k + 30\<close> of the day.
  The working hours are written so in every state reached from the initial data, and
  the slots that \<open>generateAvailableSlots\<close> returns are among those emitted. An
  \<open>HH:mm\<close> text is the text of the minute it encodes, and the text of a minute of the
  day encodes that minute. On \<open>HH:mm\<close> texts the lexicographic comparisons (\<open><\<close>,
  \<open>\<le>\<close>, equality) agree with the comparisons of the minutes, so on a booking and a
  slot with \<open>HH:mm\<close> times the filter's test is the same test on minutes.
\<close>

theorem HHmm_order_embedding:
  "(is_HHmm (slot_start period) \<and> is_HHmm (slot_end period) \<longrightarrow>
      (\<forall>s \<in> set (period_slots period).
          is_HHmm (slot_start s) \<and> is_HHmm (slot_end s) \<and>
          length (slot_start s) = 5 \<and> length (slot_end s) = 5) \<and>
      map (\<lambda>s. (minute_of_day (slot_start s), minute_of_day (slot_end s))) (period_slots period) =
      map (\<lambda>k. (minute_of_day (slot_start period) + 30 * k,
                 minute_of_day (slot_start period) + 30 * k + 30))
          [0..<(minute_of_day (slot_end period) - minute_of_day (slot_start period)) div 30])
   \<and> wellformed_hours (run dayOfWeek (initialState ymd isoString comment2) ops)
   \<and> (wellformed_hours st \<longrightarrow>
      (\<forall>s \<in> set (generateAvailableSlots dayOfWeek st providerId date).
          is_HHmm (slot_start s) \<and> is_HHmm (slot_end s)))
   \<and> (\<forall>s \<in> set (generateAvailableSlots dayOfWeek
                     (run dayOfWeek (initialState ymd isoString comment2) ops) providerId date).
          is_HHmm (slot_start s) \<and> is_HHmm (slot_end s))
   \<and> (is_HHmm a \<longrightarrow> length a = 5 \<and> minute_of_day a < 1440 \<and> clock (minute_of_day a) = a)
   \<and> (t < 1440 \<longrightarrow> is_HHmm (clock t) \<and> minute_of_day (clock t) = t)
   \<and> (is_HHmm a \<and> is_HHmm b \<longrightarrow>
        (a < b) = (minute_of_day a < minute_of_day b) \<and>
        (a \<le> b) = (minute_of_day a \<le> minute_of_day b) \<and>
        (a = b) = (minute_of_day a = minute_of_day b))
   \<and> (is_HHmm (startTime booking) \<and> is_HHmm (endTime booking) \<and>
       is_HHmm (slot_start slot) \<and> is_HHmm (slot_end slot) \<longrightarrow>
        conflicts booking slot = conflicts_in_minutes booking slot)"
proof -
  have 0: "(\<forall>s \<in> set (period_slots period).
          is_HHmm (slot_start s) \<and> is_HHmm (slot_end s) \<and>
          length (slot_start s) = 5 \<and> length (slot_end s) = 5) \<and>
      map (\<lambda>s. (minute_of_day (slot_start s), minute_of_day (slot_end s))) (period_slots period) =
      map (\<lambda>k. (minute_of_day (slot_start period) + 30 * k,
                 minute_of_day (slot_start period) + 30 * k + 30))
          [0..<(minute_of_day (slot_end period) - minute_of_day (slot_start period)) div 30]"
    if h: "is_HHmm (slot_start period)" "is_HHmm (slot_end period)"
    using period_slots_HHmm[OF h] period_slots_times[OF h] HHmm_length by blast
  have 1: "is_HHmm (slot_start s) \<and> is_HHmm (slot_end s)"
    if wf: "wellformed_hours st'"
      and s: "s \<in> set (generateAvailableSlots dayOfWeek st' providerId date)"
    for s st'
  proof -
    obtain provider k wd period where m: "provider \<in> set (mockProviders st')"
      "(k, wd) \<in> set (workingHours provider)" "period \<in> set (slots wd)"
      "s \<in> set (period_slots period)"
      using available_slots_subset[OF s] by blast
    have "is_HHmm (slot_start period) \<and> is_HHmm (slot_end period)"
      using wf m(1,2,3) by (fastforce simp: wellformed_hours_def list_all_iff)
    then show ?thesis using period_slots_HHmm m(4) by blast
  qed
  have w: "wellformed_hours (run dayOfWeek (initialState ymd isoString comment2) ops)"
    using catalogue_wellformed[OF run_same_catalogue[OF initial_same_catalogue]] .
  then have 2: "\<forall>s \<in> set (generateAvailableSlots dayOfWeek
                     (run dayOfWeek (initialState ymd isoString comment2) ops) providerId date).
          is_HHmm (slot_start s) \<and> is_HHmm (slot_end s)"
    using 1 by blast
  have 3: "(a < b) = (minute_of_day a < minute_of_day b) \<and>
        (a \<le> b) = (minute_of_day a \<le> minute_of_day b) \<and>
        (a = b) = (minute_of_day a = minute_of_day b)" if "is_HHmm a" "is_HHmm b"
    using HHmm_less[OF that] HHmm_le[OF that] HHmm_inj[OF that] by blast
  have 4: "conflicts booking slot = conflicts_in_minutes booking slot"
    if h: "is_HHmm (startTime booking)" "is_HHmm (endTime booking)"
      "is_HHmm (slot_start slot)" "is_HHmm (slot_end slot)"
    unfolding conflicts_def conflicts_in_minutes_def
    by (simp only: HHmm_le[OF h(1) h(3)] HHmm_less[OF h(3) h(2)] HHmm_less[OF h(1) h(4)]
          HHmm_le[OF h(4) h(2)] HHmm_le[OF h(3) h(1)] HHmm_le[OF h(2) h(4)])
  have 5: "length a = 5 \<and> minute_of_day a < 1440 \<and> clock (minute_of_day a) = a" if "is_HHmm a"
    using HHmm_length[OF that] HHmm_clock[OF that] by simp
  have 6: "is_HHmm (clock t) \<and> minute_of_day (clock t) = t" if "t < 1440"
    using clock_HHmm[OF that] .
  show ?thesis
    apply (intro conjI impI)
    subgoal using 0 by blast
    subgoal using 0 by blast
    subgoal by (rule w)
    subgoal using 1[of st] by blast
    subgoal by (rule 2)
    subgoal using 5 by blast
    subgoal using 5 by blast
    subgoal using 5 by blast
    subgoal using 6 by blast
    subgoal using 6 by blast
    subgoal using 3 by blast
    subgoal using 3 by blast
    subgoal using 3 by blast
    subgoal using 4 by blast
    done
qed

theorem HHmm_order_embedding_witness:
  "is_HHmm ''09:00'' \<and> is_HHmm ''10:15''
   \<and> map slot_start (period_slots \<lparr>slot_start = ''09:00'', slot_end = ''10:15''\<rparr>)
       = [''09:00'', ''09:30'']
   \<and> map slot_end (period_slots \<lparr>slot_start = ''09:00'', slot_end = ''10:15''\<rparr>)
       = [''09:30'', ''10:00'']
   \<and> map minute_of_day [''09:00'', ''09:30'', ''10:00'', ''10:15''] = [540, 570, 600, 615]
   \<and> wellformed_hours exampleState
   \<and> list_all is_HHmm (map slot_start (generateAvailableSlots exampleDay exampleState ''1'' ''2025-06-09''))
   \<and> list_all is_HHmm (map slot_end (generateAvailableSlots exampleDay exampleState ''1'' ''2025-06-09''))
   \<and> generateAvailableSlots exampleDay exampleState ''1'' ''2025-06-09'' \<noteq> []
   \<and> clock 570 = ''09:30''
   \<and> (''09:30'' < ''10:00'') = (minute_of_day ''09:30'' < minute_of_day ''10:00'')
   \<and> is_HHmm (startTime (mockBookings exampleState ! 4))
   \<and> is_HHmm (endTime (mockBookings exampleState ! 4))
   \<and> conflicts (mockBookings exampleState ! 4) \<lparr>slot_start = ''09:30'', slot_end = ''10:00''\<rparr>
       = conflicts_in_minutes (mockBookings exampleState ! 4)
           \<lparr>slot_start = ''09:30'', slot_end = ''10:00''\<rparr>"
proof -
  let ?p = "\<lparr>slot_start = ''09:00'', slot_end = ''10:15''\<rparr>"
  have wf: "wellformed_hours exampleState" by code_simp
  have ne: "generateAvailableSlots exampleDay exampleState ''1'' ''2025-06-09'' \<noteq> []" by code_simp
  have h: "is_HHmm ''09:30''" "is_HHmm ''10:00''" "is_HHmm ''09:00''" "is_HHmm ''10:15''"
    "is_HHmm (slot_start ?p)" "is_HHmm (slot_end ?p)"
    "is_HHmm (startTime (mockBookings exampleState ! 4))"
    "is_HHmm (endTime (mockBookings exampleState ! 4))" by code_simp+
  have m: "map minute_of_day [''09:00'', ''09:30'', ''10:00'', ''10:15''] = [540, 570, 600, 615]"
    by code_simp
  have ps: "map slot_start (period_slots ?p) = [''09:00'', ''09:30'']"
    "map slot_end (period_slots ?p) = [''09:30'', ''10:00'']" by code_simp+
  have c: "clock 570 = ''09:30''" by code_simp
  show ?thesis
    using HHmm_order_embedding[where st = exampleState and providerId = "''1''"
            and date = "''2025-06-09''" and dayOfWeek = exampleDay and ymd = exampleYmd
            and isoString = exampleIso and ?comment2.0 = "''good service''" and ops = "[]"
            and a = "''09:30''" and b = "''10:00''" and t = 570 and period = ?p
            and booking = "mockBookings exampleState ! 4"
            and slot = "\<lparr>slot_start = ''09:30'', slot_end = ''10:00''\<rparr>"]
      wf ne h m ps c
    by (simp add: list_all_iff)
qed

end
